theory Spec2Isabelle
  imports Main
begin

section \<open>Multi-demarche manager: configuration, staging and orchestration\<close>

text \<open>
  A shallow embedding of \<^verbatim>\<open>multi_demarche_manager.py\<close>. Python values that come out
  of \<^verbatim>\<open>json.load\<close> are values of the datatype \<open>json\<close>; fractional numbers are left
  out. A Python string is a HOL string, one \<open>char\<close> per character. Every exception the
  code can raise is a value \<open>Inl e\<close> of a sum type, every normal return a value
  \<open>Inr x\<close>. The process environment \<^verbatim>\<open>os.environ\<close> is a partial map that is passed
  in and returned. What lies outside the file (the \<^verbatim>\<open>.env\<close> file, the HTTP probe,
  the Grist collaborator, the wall clock, the textual form Python gives to containers
  and to exceptions) is collected in the record \<open>world\<close> and is a parameter of every
  function that depends on it. Imports are taken to resolve, and reloading the
  collaborator modules is taken to leave \<^verbatim>\<open>os.environ\<close> as it is. An exception
  is an instance of \<^verbatim>\<open>Exception\<close>.
\<close>

subsection \<open>Python values\<close>

type_synonym environ = "string \<rightharpoonup> string"

datatype json =
    JNull
  | JBool bool
  | JInt int
  | JStr string
  | JList "json list"
  | JDict "(string \<times> json) list"

text \<open>A \<open>JDict\<close> lists the items of a Python dict in insertion order; its keys are distinct.\<close>

datatype value_error =
    JsonFormat string string
  | MissingSection string
  | EmbeddedNull
  | IntegerDigits

text \<open>
  \<open>ValueError (JsonFormat file diagnostic)\<close> is the \<^verbatim>\<open>ValueError\<close> with the text
  ``Erreur de format JSON dans file : diagnostic'', \<open>ValueError (MissingSection s)\<close> the one
  with the text ``Section manquante dans la configuration : s'',
  \<open>ValueError EmbeddedNull\<close> the one \<^verbatim>\<open>os.environ\<close> raises for a value with a NUL
  character, and \<open>ValueError IntegerDigits\<close> the one the conversion of an integer
  literal raises when the literal has more digits than the interpreter's limit.
  \<open>FileNotFoundError file\<close> carries the path, \<open>JSONDecodeError diagnostic\<close> the
  parser's diagnostic, \<open>OSError errno\<close> the name of the error number. In Python
  \<^verbatim>\<open>JSONDecodeError\<close> and \<^verbatim>\<open>UnicodeDecodeError\<close> are subclasses of
  \<^verbatim>\<open>ValueError\<close>, and \<^verbatim>\<open>FileNotFoundError\<close>, \<^verbatim>\<open>NotADirectoryError\<close>,
  \<^verbatim>\<open>IsADirectoryError\<close> and \<^verbatim>\<open>PermissionError\<close> subclasses of
  \<^verbatim>\<open>OSError\<close>; an \<^verbatim>\<open>except\<close> clause for one of them does not catch the others,
  so each is a constructor of its own.
\<close>

datatype pyerr =
    FileNotFoundError string
  | NotADirectoryError
  | IsADirectoryError
  | PermissionError
  | OSError string
  | UnicodeDecodeError
  | JSONDecodeError string
  | RecursionError
  | ValueError value_error
  | KeyError string
  | TypeError
  | AttributeError

fun startswith :: "string \<Rightarrow> string \<Rightarrow> bool" where
  "startswith s [] = True"
| "startswith [] (p # ps) = False"
| "startswith (c # s) (p # ps) = (c = p \<and> startswith s ps)"

fun is_substring :: "string \<Rightarrow> string \<Rightarrow> bool" where
  "is_substring p [] = (p = [])"
| "is_substring p (c # cs) = (startswith (c # cs) p \<or> is_substring p cs)"

text \<open>Truth value of a Python object, as \<^verbatim>\<open>if x\<close> and \<^verbatim>\<open>not x\<close> take it.\<close>

fun py_truthy :: "json \<Rightarrow> bool" where
  "py_truthy JNull = False"
| "py_truthy (JBool b) = b"
| "py_truthy (JInt i) = (i \<noteq> 0)"
| "py_truthy (JStr s) = (s \<noteq> [])"
| "py_truthy (JList xs) = (xs \<noteq> [])"
| "py_truthy (JDict items) = (items \<noteq> [])"

text \<open>
  Python's \<^verbatim>\<open>==\<close>: \<^verbatim>\<open>True\<close> and \<^verbatim>\<open>False\<close> are the integers 1 and 0, lists are
  compared element by element, dicts key by key whatever the order of the items.
\<close>

fun py_eq :: "json \<Rightarrow> json \<Rightarrow> bool"
  and py_eq_list :: "json list \<Rightarrow> json list \<Rightarrow> bool"
  and py_eq_items :: "(string \<times> json) list \<Rightarrow> (string \<times> json) list \<Rightarrow> bool" where
  "py_eq JNull JNull = True"
| "py_eq (JBool a) (JBool b) = (a = b)"
| "py_eq (JBool a) (JInt j) = ((if a then 1 else 0) = j)"
| "py_eq (JInt i) (JBool b) = (i = (if b then 1 else 0))"
| "py_eq (JInt i) (JInt j) = (i = j)"
| "py_eq (JStr s) (JStr t) = (s = t)"
| "py_eq (JList xs) (JList ys) = py_eq_list xs ys"
| "py_eq (JDict a) (JDict b) = (length a = length b \<and> py_eq_items a b)"
| "py_eq x y = False"
| "py_eq_list [] [] = True"
| "py_eq_list (x # xs) (y # ys) = (py_eq x y \<and> py_eq_list xs ys)"
| "py_eq_list xs ys = False"
| "py_eq_items [] b = True"
| "py_eq_items ((k, v) # a) b =
     ((case map_of b k of None \<Rightarrow> False | Some w \<Rightarrow> py_eq v w) \<and> py_eq_items a b)"

definition digit_char :: "nat \<Rightarrow> char" where
  "digit_char n = ''0123456789'' ! n"

function show_nat :: "nat \<Rightarrow> string" where
  "show_nat n =
     (if n < 10 then [digit_char n]
      else show_nat (n div 10) @ [digit_char (n mod 10)])"
  by pat_completeness auto
termination
  by (relation "measure (\<lambda>n. n)") auto

definition show_int :: "int \<Rightarrow> string" where
  "show_int i = (if i < 0 then CHR ''-'' # show_nat (nat (- i)) else show_nat (nat i))"

text \<open>
  \<^verbatim>\<open>str(x)\<close>. The text of a list or of a dict is Python's \<^verbatim>\<open>repr\<close>, which the
  parameter \<open>repr\<close> supplies.
\<close>

definition py_str :: "(json \<Rightarrow> string) \<Rightarrow> json \<Rightarrow> string" where
  "py_str repr x =
     (case x of
        JNull \<Rightarrow> ''None''
      | JBool b \<Rightarrow> (if b then ''True'' else ''False'')
      | JInt i \<Rightarrow> show_int i
      | JStr s \<Rightarrow> s
      | JList xs \<Rightarrow> repr x
      | JDict items \<Rightarrow> repr x)"

text \<open>
  \<^verbatim>\<open>str.lower\<close> on the characters a \<open>char\<close> can hold: the letters A to Z, and the
  capital letters at the code points 192 to 222 (215, the multiplication sign, is none),
  each 32 code points below its small letter.
\<close>

definition capital_letters :: string where
  "capital_letters =
     ''ABCDEFGHIJKLMNOPQRSTUVWXYZ'' @
     [
      CHR 0xC0, CHR 0xC1, CHR 0xC2, CHR 0xC3, CHR 0xC4, CHR 0xC5, CHR 0xC6, CHR 0xC7,
      CHR 0xC8, CHR 0xC9, CHR 0xCA, CHR 0xCB, CHR 0xCC, CHR 0xCD, CHR 0xCE, CHR 0xCF,
      CHR 0xD0, CHR 0xD1, CHR 0xD2, CHR 0xD3, CHR 0xD4, CHR 0xD5, CHR 0xD6, CHR 0xD8,
      CHR 0xD9, CHR 0xDA, CHR 0xDB, CHR 0xDC, CHR 0xDD, CHR 0xDE]"

definition small_letters :: string where
  "small_letters =
     ''abcdefghijklmnopqrstuvwxyz'' @
     [
      CHR 0xE0, CHR 0xE1, CHR 0xE2, CHR 0xE3, CHR 0xE4, CHR 0xE5, CHR 0xE6, CHR 0xE7,
      CHR 0xE8, CHR 0xE9, CHR 0xEA, CHR 0xEB, CHR 0xEC, CHR 0xED, CHR 0xEE, CHR 0xEF,
      CHR 0xF0, CHR 0xF1, CHR 0xF2, CHR 0xF3, CHR 0xF4, CHR 0xF5, CHR 0xF6, CHR 0xF8,
      CHR 0xF9, CHR 0xFA, CHR 0xFB, CHR 0xFC, CHR 0xFD, CHR 0xFE]"

definition lower_char :: "char \<Rightarrow> char" where
  "lower_char c = (case map_of (zip capital_letters small_letters) c of None \<Rightarrow> c | Some l \<Rightarrow> l)"

definition py_lower :: "string \<Rightarrow> string" where
  "py_lower s = map lower_char s"

text \<open>\<^verbatim>\<open>d[key]\<close> on a dict, \<^verbatim>\<open>d.get(key, default)\<close> on a dict.\<close>

definition dict_item :: "(string \<times> json) list \<Rightarrow> string \<Rightarrow> pyerr + json" where
  "dict_item items key = (case map_of items key of None \<Rightarrow> Inl (KeyError key) | Some v \<Rightarrow> Inr v)"

definition dict_get :: "(string \<times> json) list \<Rightarrow> string \<Rightarrow> json \<Rightarrow> json" where
  "dict_get items key dflt = (case map_of items key of None \<Rightarrow> dflt | Some v \<Rightarrow> v)"

text \<open>
  \<^verbatim>\<open>x[key]\<close> with a string key on any value: a list and a string take integer indices
  only, the other values take none. \<^verbatim>\<open>x.get(key, default)\<close> on any value: only a dict
  has the method.
\<close>

definition subscript :: "json \<Rightarrow> string \<Rightarrow> pyerr + json" where
  "subscript x key = (case x of JDict items \<Rightarrow> dict_item items key | _ \<Rightarrow> Inl TypeError)"

definition py_get :: "json \<Rightarrow> string \<Rightarrow> json \<Rightarrow> pyerr + json" where
  "py_get x key dflt =
     (case x of JDict items \<Rightarrow> Inr (dict_get items key dflt) | _ \<Rightarrow> Inl AttributeError)"

text \<open>Iteration: a list gives its elements, a string its characters, a dict its keys.\<close>

definition py_iter :: "json \<Rightarrow> pyerr + json list" where
  "py_iter x =
     (case x of
        JList xs \<Rightarrow> Inr xs
      | JStr s \<Rightarrow> Inr (map (\<lambda>c. JStr [c]) s)
      | JDict items \<Rightarrow> Inr (map (\<lambda>(k, v). JStr k) items)
      | _ \<Rightarrow> Inl TypeError)"

fun join_strs :: "string \<Rightarrow> string list \<Rightarrow> string" where
  "join_strs sep [] = []"
| "join_strs sep [x] = x"
| "join_strs sep (x # y # ys) = x @ sep @ join_strs sep (y # ys)"

fun the_strs :: "json list \<Rightarrow> pyerr + string list" where
  "the_strs [] = Inr []"
| "the_strs (JStr s # xs) = (case the_strs xs of Inl e \<Rightarrow> Inl e | Inr ss \<Rightarrow> Inr (s # ss))"
| "the_strs (x # xs) = Inl TypeError"

text \<open>\<^verbatim>\<open>sep.join(x)\<close>: every item of the iterable must be a string.\<close>

definition py_join :: "string \<Rightarrow> json \<Rightarrow> pyerr + json" where
  "py_join sep x =
     (case py_iter x of
        Inl e \<Rightarrow> Inl e
      | Inr xs \<Rightarrow> (case the_strs xs of Inl e \<Rightarrow> Inl e | Inr ss \<Rightarrow> Inr (JStr (join_strs sep ss))))"

text \<open>\<^verbatim>\<open>key in x\<close> and so \<^verbatim>\<open>key not in x\<close>, for a string key.\<close>

definition py_contains :: "json \<Rightarrow> string \<Rightarrow> pyerr + bool" where
  "py_contains x key =
     (case x of
        JDict items \<Rightarrow> Inr (map_of items key \<noteq> None)
      | JList xs \<Rightarrow> Inr (list_ex (\<lambda>y. py_eq y (JStr key)) xs)
      | JStr s \<Rightarrow> Inr (is_substring key s)
      | _ \<Rightarrow> Inl TypeError)"

text \<open>
  \<^verbatim>\<open>os.environ[key] = value\<close>: the value must be a string (\<^verbatim>\<open>TypeError\<close> otherwise)
  without a NUL character (\<^verbatim>\<open>ValueError\<close> otherwise).
\<close>

definition setenv :: "environ \<Rightarrow> string \<Rightarrow> json \<Rightarrow> pyerr + environ" where
  "setenv env key x =
     (case x of
        JStr s \<Rightarrow> (if CHR 0x00 \<in> set s then Inl (ValueError EmbeddedNull) else Inr (env(key \<mapsto> s)))
      | _ \<Rightarrow> Inl TypeError)"

text \<open>
  A block of assignments to \<^verbatim>\<open>os.environ\<close>, run in order. Each right-hand side is
  evaluated first and may raise by itself; none of them reads the environment.
\<close>

fun setenvs :: "environ \<Rightarrow> (string \<times> (pyerr + json)) list \<Rightarrow> pyerr + environ" where
  "setenvs env [] = Inr env"
| "setenvs env ((key, rhs) # rest) =
     (case rhs of
        Inl e \<Rightarrow> Inl e
      | Inr x \<Rightarrow> (case setenv env key x of Inl e \<Rightarrow> Inl e | Inr env' \<Rightarrow> setenvs env' rest))"

subsection \<open>Placeholder resolver\<close>

definition getenv :: "environ \<Rightarrow> string \<Rightarrow> string \<Rightarrow> string" where
  "getenv env var_name dflt = (case env var_name of None \<Rightarrow> dflt | Some v \<Rightarrow> v)"

text \<open>
  One attempt of the regular expression \<^verbatim>\<open>\$\{([^}]+)\}\<close> at the head of the text: the
  captured name and the text after the closing brace.
\<close>

definition match_var :: "string \<Rightarrow> (string \<times> string) option" where
  "match_var text =
     (if startswith text ''${'' then
        (let body = drop 2 text;
             var_name = takeWhile (\<lambda>c. c \<noteq> CHR ''}'') body;
             rest = dropWhile (\<lambda>c. c \<noteq> CHR ''}'') body
         in if var_name \<noteq> [] \<and> rest \<noteq> [] then Some (var_name, tl rest) else None)
      else None)"

text \<open>
  \<^verbatim>\<open>re.sub\<close> scans from the left; a match is replaced and the scan goes on after it,
  a character where nothing matches is copied.
\<close>

function resolve_env_vars :: "environ \<Rightarrow> string \<Rightarrow> string" where
  "resolve_env_vars env [] = []"
| "resolve_env_vars env (c # cs) =
     (case match_var (c # cs) of
        Some (var_name, rest) \<Rightarrow>
          getenv env var_name (''${'' @ var_name @ ''}'') @ resolve_env_vars env rest
      | None \<Rightarrow> c # resolve_env_vars env cs)"
  by pat_completeness auto
termination
proof (relation "measure (\<lambda>(env, text). length text)")
  fix env :: environ and c :: char and cs x2 var_name rest
  assume "match_var (c # cs) = Some x2" and "(var_name, rest) = x2"
  then have m: "match_var (c # cs) = Some (var_name, rest)" by simp
  let ?tail = "dropWhile (\<lambda>c. c \<noteq> CHR ''}'') (drop 2 (c # cs))"
  from m have "?tail \<noteq> []" and "rest = tl ?tail"
    by (auto simp: match_var_def Let_def split: if_splits)
  then have "length rest < length ?tail" by (cases ?tail) auto
  also have "length ?tail \<le> length (drop 2 (c # cs))" by (rule length_dropWhile_le)
  also have "\<dots> \<le> length (c # cs)" by simp
  finally show "((env, rest), env, c # cs) \<in> measure (\<lambda>(env, text). length text)" by simp
qed simp_all

fun resolve_dict_env_vars :: "environ \<Rightarrow> json \<Rightarrow> json" where
  "resolve_dict_env_vars env (JDict items) =
     JDict (map (\<lambda>(key, v). (key, resolve_dict_env_vars env v)) items)"
| "resolve_dict_env_vars env (JList xs) = JList (map (resolve_dict_env_vars env) xs)"
| "resolve_dict_env_vars env (JStr s) = JStr (resolve_env_vars env s)"
| "resolve_dict_env_vars env d = d"

subsection \<open>Records of the program and of its surroundings\<close>

text \<open>
  The dataclass \<^verbatim>\<open>DemarcheConfig\<close> annotates its fields and checks none of them: a
  field holds whatever the document gave. Only \<open>api_token\<close> is known to be a string,
  since \<^verbatim>\<open>_load_demarches\<close> called \<^verbatim>\<open>startswith\<close> on it.
\<close>

record DemarcheConfig =
  number :: json
  name :: json
  api_token :: string
  api_url :: json
  enabled :: json
  sync_config :: json
  filters :: json

record SyncResult =
  demarche_number :: json
  demarche_name :: json
  success :: bool
  dossiers_processed :: int
  errors :: "string list"
  duration_seconds :: int

text \<open>The attributes of a \<^verbatim>\<open>MultiDemarcheManager\<close>.\<close>

record manager =
  config_file :: string
  config :: json
  demarches :: "DemarcheConfig list"

text \<open>
  What \<^verbatim>\<open>open(path, 'r', encoding='utf-8')\<close> and \<^verbatim>\<open>json.load\<close> make of the
  configuration path.
  \<^item> \<open>Missing\<close>: the path, or a directory on it, does not exist.
  \<^item> \<open>ThroughFile\<close>: a component of the path that should be a directory is a regular
    file, so that nothing exists at the path either.
  \<^item> \<open>Directory\<close>: the path names a directory.
  \<^item> \<open>Forbidden\<close>: the process may not read the file.
  \<^item> \<open>Unreadable errno\<close>: opening or reading fails with another error of the system.
  \<^item> \<open>NotUnicode\<close>: the bytes of the file are not UTF-8.
  \<^item> \<open>Unparsable diagnostic\<close>: the text is not JSON; the parser gives the diagnostic.
  \<^item> \<open>LongInteger\<close>: the text is JSON with an integer literal of more digits than the
    interpreter converts.
  \<^item> \<open>DeepNesting\<close>: the text nests deeper than the interpreter's recursion limit.
  \<^item> \<open>Parsed document\<close>: the parser returns the document.
\<close>

datatype file_read =
    Missing
  | ThroughFile
  | Directory
  | Forbidden
  | Unreadable string
  | NotUnicode
  | Unparsable string
  | LongInteger
  | DeepNesting
  | Parsed json

text \<open>
  What \<^verbatim>\<open>requests.post\<close> makes of the probe: an exception with its text, or a
  response with its status code and its body as \<^verbatim>\<open>response.json()\<close> decodes it
  (\<open>None\<close> when decoding raises).
\<close>

datatype probe_outcome = ProbeRaised string | ProbeResponse int "json option"

text \<open>
  What the call of \<^verbatim>\<open>process_demarche_for_grist_optimized\<close> makes: an exception with
  its text, or the value returned.
\<close>

datatype sync_outcome = SyncRaised string | SyncReturned bool

text \<open>
  The surroundings. \<open>repr_text\<close> is Python's text of a list or a dict, \<open>exc_text\<close> is
  \<^verbatim>\<open>str(e)\<close> for an exception of this file, \<open>dotenv\<close> holds the variables the
  \<^verbatim>\<open>.env\<close> file assigns, \<open>probe\<close> answers the connectivity probe sent to a URL with
  a token for a number, \<open>grist_client\<close> is the text of the exception that
  \<^verbatim>\<open>GristClient(base_url, api_key, doc_id)\<close> raises, if it raises,
  \<open>process_demarche\<close> runs the synchronisation under the current environment for that
  client and the arguments (number, parallel, batch size, workers), and \<open>elapsed\<close> is
  the time the clock measures for a job.
\<close>

record world =
  repr_text :: "json \<Rightarrow> string"
  exc_text :: "pyerr \<Rightarrow> string"
  dotenv :: environ
  probe :: "json \<Rightarrow> string \<Rightarrow> json \<Rightarrow> probe_outcome"
  grist_client :: "json \<times> json \<times> json \<Rightarrow> string option"
  process_demarche ::
    "environ \<Rightarrow> json \<times> json \<times> json \<Rightarrow> json \<times> json \<times> json \<times> json \<Rightarrow> sync_outcome"
  elapsed :: "DemarcheConfig \<Rightarrow> int"

text \<open>
  Lines printed on the console, where a property speaks of them, with the values they
  interpolate. The lines printed before an exception are not kept.
\<close>

datatype message =
    TokenNonResolu json string
  | GristNonResolue string string
  | ValidationStart
  | GristIncomplete string
  | GristValide
  | DemarchesActivees nat nat
  | TokenManquant json json
  | TokenConfigure bool json json
  | ConfigurationValide
  | ConfigurationInvalide

subsection \<open>Configuration loader\<close>

text \<open>\<^verbatim>\<open>load_dotenv()\<close> keeps a variable the process already has;
  \<^verbatim>\<open>load_dotenv(override=True)\<close> replaces it.\<close>

definition load_dotenv :: "environ \<Rightarrow> environ \<Rightarrow> environ" where
  "load_dotenv file env = file ++ env"

definition load_dotenv_override :: "environ \<Rightarrow> environ \<Rightarrow> environ" where
  "load_dotenv_override file env = env ++ file"

fun check_sections :: "json \<Rightarrow> string list \<Rightarrow> pyerr + unit" where
  "check_sections cfg [] = Inr ()"
| "check_sections cfg (section # rest) =
     (case py_contains cfg section of
        Inl e \<Rightarrow> Inl e
      | Inr present \<Rightarrow>
          (if \<not> present then Inl (ValueError (MissingSection section))
           else check_sections cfg rest))"

text \<open>The \<^verbatim>\<open>with\<close> block of \<^verbatim>\<open>_load_config\<close>: the exception that \<^verbatim>\<open>open\<close> or
  \<^verbatim>\<open>json.load\<close> raises, or the document.\<close>

fun read_json :: "string \<Rightarrow> file_read \<Rightarrow> pyerr + json" where
  "read_json path Missing = Inl (FileNotFoundError path)"
| "read_json path ThroughFile = Inl NotADirectoryError"
| "read_json path Directory = Inl IsADirectoryError"
| "read_json path Forbidden = Inl PermissionError"
| "read_json path (Unreadable errno) = Inl (OSError errno)"
| "read_json path NotUnicode = Inl UnicodeDecodeError"
| "read_json path (Unparsable diagnostic) = Inl (JSONDecodeError diagnostic)"
| "read_json path LongInteger = Inl (ValueError IntegerDigits)"
| "read_json path DeepNesting = Inl RecursionError"
| "read_json path (Parsed document) = Inr document"

text \<open>The two \<^verbatim>\<open>except\<close> clauses of \<^verbatim>\<open>_load_config\<close>: \<^verbatim>\<open>FileNotFoundError\<close> is
  raised again with the message of the program, \<^verbatim>\<open>json.JSONDecodeError\<close> becomes the
  \<^verbatim>\<open>ValueError\<close> that wraps its diagnostic, and every other exception passes.\<close>

fun except_clauses :: "string \<Rightarrow> pyerr \<Rightarrow> pyerr" where
  "except_clauses path (FileNotFoundError p) = FileNotFoundError path"
| "except_clauses path (JSONDecodeError diagnostic) = ValueError (JsonFormat path diagnostic)"
| "except_clauses path e = e"

definition load_config :: "string \<Rightarrow> file_read \<Rightarrow> environ \<Rightarrow> pyerr + json" where
  "load_config path file env =
     (case (case read_json path file of
              Inl e \<Rightarrow> Inl e
            | Inr document \<Rightarrow>
                (let cfg = resolve_dict_env_vars env document
                 in case check_sections cfg [''grist'', ''demarches''] of
                      Inl e \<Rightarrow> Inl e
                    | Inr u \<Rightarrow> Inr cfg)) of
        Inl e \<Rightarrow> Inl (except_clauses path e)
      | Inr cfg \<Rightarrow> Inr cfg)"

subsection \<open>Job registry\<close>

definition default_api_url :: string where
  "default_api_url = ''https://www.demarches-simplifiees.fr/api/v2/graphql''"

text \<open>
  The body of the loop of \<^verbatim>\<open>_load_demarches\<close> for one entry: the lines it prints, and
  the record it appends, if any.
\<close>

definition load_demarche :: "json \<Rightarrow> pyerr + message list \<times> DemarcheConfig option" where
  "load_demarche demarche_data =
     (case demarche_data of
        JDict items \<Rightarrow>
          (case dict_get items ''api_token'' (JStr []) of
             JStr token \<Rightarrow>
               (if startswith token ''${'' then
                  (case dict_item items ''number'' of
                     Inl e \<Rightarrow> Inl e
                   | Inr n \<Rightarrow> Inr ([TokenNonResolu n token], None))
                else
                  (case dict_item items ''number'' of
                     Inl e \<Rightarrow> Inl e
                   | Inr n \<Rightarrow>
                       (case dict_item items ''name'' of
                          Inl e \<Rightarrow> Inl e
                        | Inr nm \<Rightarrow>
                            Inr ([], Some \<lparr>number = n, name = nm, api_token = token,
                                   api_url = dict_get items ''api_url'' (JStr default_api_url),
                                   enabled = dict_get items ''enabled'' (JBool True),
                                   sync_config = dict_get items ''sync_config'' (JDict []),
                                   filters = dict_get items ''filters'' (JDict [])\<rparr>))))
           | _ \<Rightarrow> Inl AttributeError)
      | _ \<Rightarrow> Inl AttributeError)"

fun load_demarches_loop :: "json list \<Rightarrow> pyerr + message list \<times> DemarcheConfig list" where
  "load_demarches_loop [] = Inr ([], [])"
| "load_demarches_loop (demarche_data # rest) =
     (case load_demarche demarche_data of
        Inl e \<Rightarrow> Inl e
      | Inr (printed, appended) \<Rightarrow>
          (case load_demarches_loop rest of
             Inl e \<Rightarrow> Inl e
           | Inr (printed', ds) \<Rightarrow>
               Inr (printed @ printed', (case appended of None \<Rightarrow> ds | Some d \<Rightarrow> d # ds))))"

definition load_demarches :: "json \<Rightarrow> pyerr + message list \<times> DemarcheConfig list" where
  "load_demarches cfg =
     (case subscript cfg ''demarches'' of
        Inl e \<Rightarrow> Inl e
      | Inr section \<Rightarrow>
          (case py_iter section of Inl e \<Rightarrow> Inl e | Inr entries \<Rightarrow> load_demarches_loop entries))"

text \<open>\<^verbatim>\<open>__init__\<close>: the lines printed, the manager, and the environment after
  \<^verbatim>\<open>load_dotenv()\<close>.\<close>

definition manager_init ::
  "world \<Rightarrow> string \<Rightarrow> file_read \<Rightarrow> environ \<Rightarrow> pyerr + message list \<times> manager \<times> environ" where
  "manager_init w path file env =
     (let env' = load_dotenv (dotenv w) env
      in case load_config path file env' of
           Inl e \<Rightarrow> Inl e
         | Inr cfg \<Rightarrow>
             (case load_demarches cfg of
                Inl e \<Rightarrow> Inl e
              | Inr (printed, ds) \<Rightarrow>
                  Inr (printed, \<lparr>config_file = path, config = cfg, demarches = ds\<rparr>, env')))"

definition get_enabled_demarches :: "manager \<Rightarrow> DemarcheConfig list" where
  "get_enabled_demarches mgr = filter (\<lambda>d. py_truthy (enabled d)) (demarches mgr)"

definition get_demarche_config :: "manager \<Rightarrow> json \<Rightarrow> DemarcheConfig option" where
  "get_demarche_config mgr num =
     find (\<lambda>d. py_eq (number d) num) (demarches mgr)"

definition get_grist_config :: "manager \<Rightarrow> pyerr + message list \<times> (string \<times> json) list" where
  "get_grist_config mgr =
     (case subscript (config mgr) ''grist'' of
        Inl e \<Rightarrow> Inl e
      | Inr (JDict grist_config) \<Rightarrow>
          Inr (concat (map (\<lambda>(key, v). case v of
                              JStr s \<Rightarrow> (if startswith s ''${'' then [GristNonResolue key s] else [])
                            | _ \<Rightarrow> []) grist_config),
               grist_config)
      | Inr _ \<Rightarrow> Inl AttributeError)"

subsection \<open>Environment stager\<close>

text \<open>The test of \<^verbatim>\<open>set_environment_for_demarche\<close> and of
  \<^verbatim>\<open>validate_configuration\<close> on a token.\<close>

definition token_invalid :: "DemarcheConfig \<Rightarrow> bool" where
  "token_invalid d = (api_token d = [] \<or> startswith (api_token d) ''${'')"

text \<open>
  The writes of \<^verbatim>\<open>set_environment_for_demarche\<close>, from the first assignment to
  \<^verbatim>\<open>os.environ\<close> to the last, in the order of the source: the credentials, the reload of
  the \<^verbatim>\<open>.env\<close> file, the Grist variables, the filters, the synchronisation parameters.
\<close>

definition credential_slots :: "world \<Rightarrow> DemarcheConfig \<Rightarrow> json \<Rightarrow> (string \<times> (pyerr + json)) list" where
  "credential_slots w d num =
     [(''DEMARCHES_API_TOKEN'', Inr (JStr (api_token d))),
      (''DEMARCHES_API_URL'', Inr (api_url d)),
      (''DEMARCHE_NUMBER'', Inr (JStr (py_str (repr_text w) num)))]"

definition grist_slots :: "(string \<times> json) list \<Rightarrow> (string \<times> (pyerr + json)) list" where
  "grist_slots grist_config =
     [(''GRIST_BASE_URL'', dict_item grist_config ''base_url''),
      (''GRIST_API_KEY'', dict_item grist_config ''api_key''),
      (''GRIST_DOC_ID'', dict_item grist_config ''doc_id'')]"

definition filter_slots :: "world \<Rightarrow> DemarcheConfig \<Rightarrow> (string \<times> (pyerr + json)) list" where
  "filter_slots w d =
     [(''DATE_DEPOT_DEBUT'', py_get (filters d) ''date_depot_debut'' (JStr [])),
      (''DATE_DEPOT_FIN'', py_get (filters d) ''date_depot_fin'' (JStr [])),
      (''STATUTS_DOSSIERS'',
         (case py_get (filters d) ''statuts_dossiers'' (JList []) of
            Inl e \<Rightarrow> Inl e
          | Inr statuts \<Rightarrow> py_join '','' statuts)),
      (''GROUPES_INSTRUCTEURS'',
         (case py_get (filters d) ''groupes_instructeurs'' (JList []) of
            Inl e \<Rightarrow> Inl e
          | Inr groupes \<Rightarrow>
              (case py_iter groupes of
                 Inl e \<Rightarrow> Inl e
               | Inr gs \<Rightarrow> Inr (JStr (join_strs '','' (map (py_str (repr_text w)) gs))))))]"

definition sync_slots :: "world \<Rightarrow> DemarcheConfig \<Rightarrow> (string \<times> (pyerr + json)) list" where
  "sync_slots w d =
     [(''BATCH_SIZE'',
         (case py_get (sync_config d) ''batch_size'' (JInt 50) of
            Inl e \<Rightarrow> Inl e | Inr x \<Rightarrow> Inr (JStr (py_str (repr_text w) x)))),
      (''MAX_WORKERS'',
         (case py_get (sync_config d) ''max_workers'' (JInt 3) of
            Inl e \<Rightarrow> Inl e | Inr x \<Rightarrow> Inr (JStr (py_str (repr_text w) x)))),
      (''PARALLEL'',
         (case py_get (sync_config d) ''parallel'' (JBool True) of
            Inl e \<Rightarrow> Inl e | Inr x \<Rightarrow> Inr (JStr (py_lower (py_str (repr_text w) x)))))]"

definition stage_context ::
  "world \<Rightarrow> manager \<Rightarrow> environ \<Rightarrow> DemarcheConfig \<Rightarrow> json \<Rightarrow> pyerr + environ" where
  "stage_context w mgr env d num =
     (case setenvs env (credential_slots w d num) of
        Inl e \<Rightarrow> Inl e
      | Inr env1 \<Rightarrow>
          (let env2 = load_dotenv_override (dotenv w) env1
           in case get_grist_config mgr of
                Inl e \<Rightarrow> Inl e
              | Inr (printed, grist_config) \<Rightarrow>
                  (case setenvs env2 (grist_slots grist_config) of
                     Inl e \<Rightarrow> Inl e
                   | Inr env3 \<Rightarrow>
                       (case setenvs env3 (filter_slots w d) of
                          Inl e \<Rightarrow> Inl e
                        | Inr env4 \<Rightarrow> setenvs env4 (sync_slots w d)))))"

text \<open>
  \<^verbatim>\<open>result.get("data") and result["data"].get("demarche")\<close> on the decoded body, as
  a truth value.
\<close>

definition access_confirmed :: "json \<Rightarrow> pyerr + bool" where
  "access_confirmed result =
     (case py_get result ''data'' JNull of
        Inl e \<Rightarrow> Inl e
      | Inr data \<Rightarrow>
          (if \<not> py_truthy data then Inr False
           else (case py_get data ''demarche'' JNull of
                   Inl e \<Rightarrow> Inl e
                 | Inr dem \<Rightarrow> Inr (py_truthy dem))))"

text \<open>
  The validation at the end of \<^verbatim>\<open>set_environment_for_demarche\<close>: the value the
  function returns for each outcome of the probe. Whatever raises inside the
  \<^verbatim>\<open>try\<close> is caught by \<^verbatim>\<open>except Exception\<close>.
\<close>

definition validate_token :: "probe_outcome \<Rightarrow> bool" where
  "validate_token outcome =
     (case outcome of
        ProbeRaised text \<Rightarrow> True
      | ProbeResponse status_code body \<Rightarrow>
          (if status_code = 200 then
             (case body of
                None \<Rightarrow> True
              | Some result \<Rightarrow>
                  (case access_confirmed result of
                     Inl e \<Rightarrow> True
                   | Inr confirmed \<Rightarrow> (if confirmed then True else True)))
           else True))"

definition set_environment_for_demarche ::
  "world \<Rightarrow> manager \<Rightarrow> environ \<Rightarrow> json \<Rightarrow> pyerr + bool \<times> environ" where
  "set_environment_for_demarche w mgr env num =
     (case get_demarche_config mgr num of
        None \<Rightarrow> Inr (False, env)
      | Some d \<Rightarrow>
          (if token_invalid d then Inr (False, env)
           else (case stage_context w mgr env d num of
                   Inl e \<Rightarrow> Inl e
                 | Inr env' \<Rightarrow>
                     Inr (validate_token (probe w (api_url d) (api_token d) num),
                          env'))))"

subsection \<open>Orchestrator\<close>

definition sync_error_text :: "string \<Rightarrow> string" where
  "sync_error_text text = ''Erreur lors de la synchronisation : '' @ text"

definition env_failure_text :: string where
  "env_failure_text = CHR 0xC9 # ''chec de la configuration de l'environnement''"

definition not_found_text :: string where
  "not_found_text =
     ''D'' @ [CHR 0xE9] @ ''marche non trouv'' @ [CHR 0xE9] @ ''e dans la configuration''"

text \<open>The body of the \<^verbatim>\<open>try\<close> of \<^verbatim>\<open>_sync_single_demarche\<close>: \<open>Inl\<close> the text of the
  exception caught, \<open>Inr\<close> the value of \<^verbatim>\<open>success\<close>.\<close>

definition try_sync :: "world \<Rightarrow> manager \<Rightarrow> environ \<Rightarrow> DemarcheConfig \<Rightarrow> string + bool" where
  "try_sync w mgr env d =
     (case get_grist_config mgr of
        Inl e \<Rightarrow> Inl (exc_text w e)
      | Inr (printed, grist_config) \<Rightarrow>
          (case dict_item grist_config ''base_url'' of
             Inl e \<Rightarrow> Inl (exc_text w e)
           | Inr base_url \<Rightarrow>
          (case dict_item grist_config ''api_key'' of
             Inl e \<Rightarrow> Inl (exc_text w e)
           | Inr api_key \<Rightarrow>
          (case dict_item grist_config ''doc_id'' of
             Inl e \<Rightarrow> Inl (exc_text w e)
           | Inr doc_id \<Rightarrow>
          (case grist_client w (base_url, api_key, doc_id) of
             Some text \<Rightarrow> Inl text
           | None \<Rightarrow>
          (case sync_config d of
             JDict items \<Rightarrow>
               (let parallel = dict_get items ''parallel'' (JBool True);
                    batch_size = dict_get items ''batch_size'' (JInt 50);
                    max_workers = dict_get items ''max_workers'' (JInt 3)
                in case process_demarche w env (base_url, api_key, doc_id)
                          (number d, parallel, batch_size, max_workers) of
                     SyncRaised text \<Rightarrow> Inl text
                   | SyncReturned ok \<Rightarrow> Inr ok)
           | _ \<Rightarrow> Inl (exc_text w AttributeError)))))))"

definition sync_single_demarche :: "world \<Rightarrow> manager \<Rightarrow> environ \<Rightarrow> DemarcheConfig \<Rightarrow> SyncResult" where
  "sync_single_demarche w mgr env d =
     (case try_sync w mgr env d of
        Inr ok \<Rightarrow>
          \<lparr>demarche_number = number d, demarche_name = name d, success = ok,
           dossiers_processed = 0, errors = [], duration_seconds = elapsed w d\<rparr>
      | Inl text \<Rightarrow>
          \<lparr>demarche_number = number d, demarche_name = name d, success = False,
           dossiers_processed = 0, errors = [sync_error_text text],
           duration_seconds = elapsed w d\<rparr>)"

text \<open>The result recorded when \<^verbatim>\<open>set_environment_for_demarche\<close> returns \<^verbatim>\<open>False\<close>.\<close>

definition env_failure :: "json \<Rightarrow> json \<Rightarrow> SyncResult" where
  "env_failure n nm =
     \<lparr>demarche_number = n, demarche_name = nm, success = False, dossiers_processed = 0,
      errors = [env_failure_text], duration_seconds = 0\<rparr>"

text \<open>The result recorded for a number that \<^verbatim>\<open>get_demarche_config\<close> does not find.\<close>

definition not_found :: "world \<Rightarrow> json \<Rightarrow> SyncResult" where
  "not_found w n =
     \<lparr>demarche_number = n,
      demarche_name = JStr (''D'' @ [CHR 0xE9] @ ''marche '' @ py_str (repr_text w) n),
      success = False, dossiers_processed = 0,
      errors = [not_found_text], duration_seconds = 0\<rparr>"

text \<open>
  The loops of \<^verbatim>\<open>sync_all_demarches\<close> and \<^verbatim>\<open>sync_specific_demarches\<close> return the
  list \<^verbatim>\<open>results\<close>, the environment they leave, and the numbers
  \<^verbatim>\<open>set_environment_for_demarche\<close> was called with, in the order of the calls. The
  pause between two jobs and the summary printed at the end change neither.
\<close>

fun sync_all_loop ::
  "world \<Rightarrow> manager \<Rightarrow> environ \<Rightarrow> DemarcheConfig list \<Rightarrow>
     pyerr + SyncResult list \<times> environ \<times> json list" where
  "sync_all_loop w mgr env [] = Inr ([], env, [])"
| "sync_all_loop w mgr env (d # rest) =
     (case set_environment_for_demarche w mgr env (number d) of
        Inl e \<Rightarrow> Inl e
      | Inr (staged, env') \<Rightarrow>
          (let result = (if \<not> staged then env_failure (number d) (name d)
                         else sync_single_demarche w mgr env' d)
           in case sync_all_loop w mgr env' rest of
                Inl e \<Rightarrow> Inl e
              | Inr (results, env'', calls) \<Rightarrow> Inr (result # results, env'', number d # calls)))"

definition sync_all_demarches ::
  "world \<Rightarrow> manager \<Rightarrow> environ \<Rightarrow> pyerr + SyncResult list \<times> environ \<times> json list" where
  "sync_all_demarches w mgr env = sync_all_loop w mgr env (get_enabled_demarches mgr)"

fun sync_specific_demarches ::
  "world \<Rightarrow> manager \<Rightarrow> environ \<Rightarrow> json list \<Rightarrow> bool \<Rightarrow>
     pyerr + SyncResult list \<times> environ \<times> json list" where
  "sync_specific_demarches w mgr env [] force_disabled = Inr ([], env, [])"
| "sync_specific_demarches w mgr env (num # rest) force_disabled =
     (case get_demarche_config mgr num of
        None \<Rightarrow>
          (case sync_specific_demarches w mgr env rest force_disabled of
             Inl e \<Rightarrow> Inl e
           | Inr (results, env'', calls) \<Rightarrow>
               Inr (not_found w num # results, env'', calls))
      | Some d \<Rightarrow>
          (if \<not> py_truthy (enabled d) \<and> \<not> force_disabled then
             sync_specific_demarches w mgr env rest force_disabled
           else
             (case set_environment_for_demarche w mgr env num of
                Inl e \<Rightarrow> Inl e
              | Inr (staged, env') \<Rightarrow>
                  (let result = (if \<not> staged then env_failure num (name d)
                                 else sync_single_demarche w mgr env' d)
                   in case sync_specific_demarches w mgr env' rest force_disabled of
                        Inl e \<Rightarrow> Inl e
                      | Inr (results, env'', calls) \<Rightarrow>
                          Inr (result # results, env'', num # calls)))))"

subsection \<open>Validation\<close>

text \<open>The loop of \<^verbatim>\<open>validate_configuration\<close> over the three Grist keys: the keys it
  reports as incomplete.\<close>

fun check_grist :: "(string \<times> json) list \<Rightarrow> string list \<Rightarrow> pyerr + string list" where
  "check_grist grist_config [] = Inr []"
| "check_grist grist_config (key # rest) =
     (let x = dict_get grist_config key JNull
      in if \<not> py_truthy x then
           (case check_grist grist_config rest of
              Inl e \<Rightarrow> Inl e | Inr incomplete \<Rightarrow> Inr (key # incomplete))
         else
           (case x of
              JStr s \<Rightarrow>
                (case check_grist grist_config rest of
                   Inl e \<Rightarrow> Inl e
                 | Inr incomplete \<Rightarrow>
                     Inr (if startswith s ''${'' then key # incomplete else incomplete))
            | _ \<Rightarrow> Inl AttributeError))"

definition token_line :: "DemarcheConfig \<Rightarrow> message" where
  "token_line d =
     (if token_invalid d then TokenManquant (number d) (name d)
      else TokenConfigure (py_truthy (enabled d)) (name d) (number d))"

definition validate_configuration :: "manager \<Rightarrow> pyerr + message list \<times> bool" where
  "validate_configuration mgr =
     (case get_grist_config mgr of
        Inl e \<Rightarrow> Inl e
      | Inr (printed, grist_config) \<Rightarrow>
          (case check_grist grist_config [''base_url'', ''api_key'', ''doc_id''] of
             Inl e \<Rightarrow> Inl e
           | Inr incomplete \<Rightarrow>
               (let grist_valid = (incomplete = []);
                    valid = (grist_valid \<and> list_all (\<lambda>d. \<not> token_invalid d) (demarches mgr))
                in Inr ([ValidationStart] @ printed @ map GristIncomplete incomplete @
                        (if grist_valid then [GristValide] else []) @
                        [DemarchesActivees (length (get_enabled_demarches mgr))
                                           (length (demarches mgr))] @
                        map token_line (demarches mgr) @
                        [if valid then ConfigurationValide else ConfigurationInvalide],
                        valid))))"

subsection \<open>Sample surroundings and configurations\<close>

text \<open>
  A world without \<^verbatim>\<open>.env\<close> file, where the probe is answered with status 200 and a
  body that confirms the access, and the synchronisation returns \<^verbatim>\<open>True\<close>.
\<close>

definition calm_world :: world where
  "calm_world =
     \<lparr>repr_text = (\<lambda>x. ''[]''), exc_text = (\<lambda>e. ''error''), dotenv = Map.empty,
      probe = (\<lambda>url token n.
        ProbeResponse 200 (Some (JDict [(''data'', JDict [(''demarche'', JDict [(''id'', JStr ''x'')])])]))),
      grist_client = (\<lambda>c. None),
      process_demarche = (\<lambda>env c a. SyncReturned True),
      elapsed = (\<lambda>d. 7)\<rparr>"

definition sample_grist :: json where
  "sample_grist =
     JDict [(''base_url'', JStr ''https://grist''), (''api_key'', JStr ''key''),
            (''doc_id'', JStr ''doc'')]"

definition job_a :: DemarcheConfig where
  "job_a =
     \<lparr>number = JInt 1, name = JStr ''A'', api_token = ''tokenA'',
      api_url = JStr ''https://a'', enabled = JBool True,
      sync_config = JDict [(''batch_size'', JInt 10), (''max_workers'', JInt 2),
                           (''parallel'', JBool False)],
      filters = JDict [(''date_depot_debut'', JStr ''2024-01-01''),
                       (''date_depot_fin'', JStr ''2024-12-31''),
                       (''statuts_dossiers'', JList [JStr ''accepte'', JStr ''refuse'']),
                       (''groupes_instructeurs'', JList [JInt 4, JInt 5])]\<rparr>"

definition job_b :: DemarcheConfig where
  "job_b =
     \<lparr>number = JInt 2, name = JStr ''B'', api_token = ''tokenB'',
      api_url = JStr ''https://b'', enabled = JBool True,
      sync_config = JDict [], filters = JDict []\<rparr>"

definition job_off :: DemarcheConfig where
  "job_off =
     \<lparr>number = JInt 3, name = JStr ''Off'', api_token = ''tokenC'',
      api_url = JStr ''https://c'', enabled = JBool False,
      sync_config = JDict [], filters = JDict []\<rparr>"

definition job_empty :: DemarcheConfig where
  "job_empty =
     \<lparr>number = JInt 4, name = JStr ''E'', api_token = [],
      api_url = JStr ''https://e'', enabled = JBool True,
      sync_config = JDict [], filters = JDict []\<rparr>"

definition sample_manager :: manager where
  "sample_manager =
     \<lparr>config_file = ''config.json'',
      config = JDict [(''grist'', sample_grist), (''demarches'', JList [])],
      demarches = [job_a, job_b, job_off, job_empty]\<rparr>"

definition job_null_date :: DemarcheConfig where
  "job_null_date =
     \<lparr>number = JInt 5, name = JStr ''N'', api_token = ''tokenN'',
      api_url = JStr ''https://n'', enabled = JBool True,
      sync_config = JDict [], filters = JDict [(''date_depot_debut'', JNull)]\<rparr>"

definition null_date_manager :: manager where
  "null_date_manager =
     \<lparr>config_file = ''config.json'',
      config = JDict [(''grist'', sample_grist), (''demarches'', JList [])],
      demarches = [job_null_date]\<rparr>"

text \<open>The same world with a \<^verbatim>\<open>.env\<close> file that holds the line
  \<^verbatim>\<open>DEMARCHES_API_TOKEN=legacy\<close>.\<close>

definition legacy_world :: world where
  "legacy_world = calm_world\<lparr>dotenv := [''DEMARCHES_API_TOKEN'' \<mapsto> ''legacy'']\<rparr>"

text \<open>
  A document with one resolved and one unresolved token, a document with an empty token
  and a token that holds a placeholder after its first character, a registry with three
  enabled jobs, and a world where the synchronisation of number 2 raises.
\<close>

definition mixed_config :: json where
  "mixed_config =
     JDict [(''grist'', sample_grist),
            (''demarches'',
               JList [JDict [(''number'', JInt 1), (''name'', JStr ''A''), (''api_token'', JStr ''tokenA'')],
                      JDict [(''number'', JInt 2), (''name'', JStr ''B''),
                             (''api_token'', JStr ''${TOKEN_B}'')]])]"

definition lax_config :: json where
  "lax_config =
     JDict [(''grist'', sample_grist),
            (''demarches'',
               JList [JDict [(''number'', JInt 7), (''name'', JStr ''G''), (''api_token'', JStr [])],
                      JDict [(''number'', JInt 8), (''name'', JStr ''H''),
                             (''api_token'', JStr ''Bearer ${TOKEN_H}'')]])]"

definition job_c :: DemarcheConfig where
  "job_c =
     \<lparr>number = JInt 6, name = JStr ''C'', api_token = ''tokenC'',
      api_url = JStr ''https://c'', enabled = JBool True,
      sync_config = JDict [], filters = JDict []\<rparr>"

definition trio_manager :: manager where
  "trio_manager =
     \<lparr>config_file = ''config.json'',
      config = JDict [(''grist'', sample_grist), (''demarches'', JList [])],
      demarches = [job_a, job_b, job_off, job_c]\<rparr>"

definition failing_world :: world where
  "failing_world =
     calm_world\<lparr>process_demarche :=
       (\<lambda>env client args. if fst args = JInt 2 then SyncRaised ''boom'' else SyncReturned True)\<rparr>"

text \<open>A document whose only job has an unresolved token, and the manager
  \<^verbatim>\<open>__init__\<close> builds from it.\<close>

definition unresolved_doc :: json where
  "unresolved_doc =
     JDict [(''grist'', sample_grist),
            (''demarches'',
               JList [JDict [(''number'', JInt 9), (''name'', JStr ''U''),
                             (''api_token'', JStr ''${TOKEN_9}'')]])]"

definition unresolved_manager :: manager where
  "unresolved_manager =
     \<lparr>config_file = ''config.json'', config = unresolved_doc, demarches = []\<rparr>"

text \<open>
  Vocabulary for the properties of the registry. For an entry of the document:
  its token as \<^verbatim>\<open>_load_demarches\<close> reads it, a field with its default, whether the
  token starts with the placeholder marker, the warning printed for it, the record built
  from it, and whether the loop body runs on it without raising.
\<close>

definition entry_token :: "json \<Rightarrow> string" where
  "entry_token x =
     (case x of
        JDict items \<Rightarrow> (case dict_get items ''api_token'' (JStr []) of JStr t \<Rightarrow> t | _ \<Rightarrow> [])
      | _ \<Rightarrow> [])"

definition entry_field :: "json \<Rightarrow> string \<Rightarrow> json \<Rightarrow> json" where
  "entry_field x key dflt = (case x of JDict items \<Rightarrow> dict_get items key dflt | _ \<Rightarrow> dflt)"

definition entry_unresolved :: "json \<Rightarrow> bool" where
  "entry_unresolved x = startswith (entry_token x) ''${''"

definition entry_warning :: "json \<Rightarrow> message" where
  "entry_warning x = TokenNonResolu (entry_field x ''number'' JNull) (entry_token x)"

definition entry_config :: "json \<Rightarrow> DemarcheConfig" where
  "entry_config x =
     \<lparr>number = entry_field x ''number'' JNull, name = entry_field x ''name'' JNull,
      api_token = entry_token x,
      api_url = entry_field x ''api_url'' (JStr default_api_url),
      enabled = entry_field x ''enabled'' (JBool True),
      sync_config = entry_field x ''sync_config'' (JDict []),
      filters = entry_field x ''filters'' (JDict [])\<rparr>"

definition entry_loadable :: "json \<Rightarrow> bool" where
  "entry_loadable x =
     (case x of
        JDict items \<Rightarrow>
          (case dict_get items ''api_token'' (JStr []) of
             JStr t \<Rightarrow>
               map_of items ''number'' \<noteq> None \<and>
               (startswith t ''${'' \<or> map_of items ''name'' \<noteq> None)
           | _ \<Rightarrow> False)
      | _ \<Rightarrow> False)"

text \<open>
  Vocabulary for the properties of the validation. A Grist field is valid when it is a
  string that is not empty and does not start with the placeholder marker; the loop of
  \<^verbatim>\<open>validate_configuration\<close> can test it without raising when it is a string or a
  value that counts as false.
\<close>

definition grist_field_valid :: "(string \<times> json) list \<Rightarrow> string \<Rightarrow> bool" where
  "grist_field_valid grist_config key =
     (case dict_get grist_config key JNull of
        JStr s \<Rightarrow> s \<noteq> [] \<and> \<not> startswith s ''${''
      | _ \<Rightarrow> False)"

definition grist_field_checkable :: "(string \<times> json) list \<Rightarrow> string \<Rightarrow> bool" where
  "grist_field_checkable grist_config key =
     (case dict_get grist_config key JNull of
        JStr s \<Rightarrow> True
      | x \<Rightarrow> \<not> py_truthy x)"

text \<open>Vocabulary for the properties of the resolver.\<close>

definition is_var_name :: "string \<Rightarrow> bool" where
  "is_var_name n = (n \<noteq> [] \<and> CHR ''}'' \<notin> set n)"

fun has_placeholder :: "string \<Rightarrow> bool" where
  "has_placeholder [] = False"
| "has_placeholder (c # cs) = (match_var (c # cs) \<noteq> None \<or> has_placeholder cs)"

fun has_marker :: "string \<Rightarrow> bool" where
  "has_marker [] = False"
| "has_marker (c # cs) = (startswith (c # cs) ''${'' \<or> has_marker cs)"

definition is_scalar :: "json \<Rightarrow> bool" where
  "is_scalar d = (case d of JNull \<Rightarrow> True | JBool b \<Rightarrow> True | JInt i \<Rightarrow> True | _ \<Rightarrow> False)"

datatype step = Key string | Index nat

fun json_at :: "json \<Rightarrow> step list \<Rightarrow> json option" where
  "json_at d [] = Some d"
| "json_at (JDict items) (Key k # p) =
     (case map_of items k of None \<Rightarrow> None | Some v \<Rightarrow> json_at v p)"
| "json_at (JList xs) (Index i # p) = (if i < length xs then json_at (xs ! i) p else None)"
| "json_at d (s # p) = None"

section \<open>Properties\<close>

subsection \<open>Placeholder resolver\<close>

lemma match_var_marker: "match_var text \<noteq> None \<Longrightarrow> startswith text ''${''"
  by (auto simp: match_var_def split: if_splits)

lemma no_marker_no_placeholder: "\<not> has_marker s \<Longrightarrow> \<not> has_placeholder s"
proof (induction s)
  case Nil
  show ?case by simp
next
  case (Cons c cs)
  then have "\<not> startswith (c # cs) ''${''" and "\<not> has_placeholder cs" by auto
  moreover have "match_var (c # cs) = None"
    using match_var_marker[of "c # cs"] \<open>\<not> startswith (c # cs) ''${''\<close> by blast
  ultimately show ?case by simp
qed

lemma resolve_no_placeholder: "\<not> has_placeholder s \<Longrightarrow> resolve_env_vars env s = s"
  by (induction s) (auto split: option.splits)

lemma match_var_single:
  assumes "is_var_name n"
  shows "match_var (''${'' @ n @ ''}'' @ rest) = Some (n, rest)"
proof -
  from assms have ne: "n \<noteq> []" and all: "\<forall>c\<in>set n. c \<noteq> CHR ''}''"
    by (auto simp: is_var_name_def)
  have tw: "takeWhile (\<lambda>c. c \<noteq> CHR ''}'') (n @ CHR ''}'' # rest) = n"
    using all by (simp add: takeWhile_append2)
  have dw: "dropWhile (\<lambda>c. c \<noteq> CHR ''}'') (n @ CHR ''}'' # rest) = CHR ''}'' # rest"
    using all by (simp add: dropWhile_append2)
  show ?thesis using ne tw dw by (simp add: match_var_def)
qed

lemma resolve_single:
  assumes "is_var_name n"
  shows "resolve_env_vars env (''${'' @ n @ ''}'') = getenv env n (''${'' @ n @ ''}'')"
proof -
  have "match_var (CHR ''$'' # CHR ''{'' # n @ ''}'') = Some (n, [])"
    using match_var_single[OF assms, of "[]"] by simp
  then show ?thesis by simp
qed

text \<open>
  Claim C8. A string in which the pattern \<^verbatim>\<open>${NAME}\<close> does not occur (in particular a
  string without \<^verbatim>\<open>${\<close>) is returned as it is. For a name \<open>n\<close> (what the pattern
  captures: not empty, no closing brace) the environment does not define,
  \<^verbatim>\<open>${n}\<close> is returned as it is, and resolving the result again changes nothing. For a
  name the environment defines with value \<open>v\<close>, \<^verbatim>\<open>${n}\<close> becomes \<open>v\<close>.
\<close>

theorem resolve_env_vars_properties:
  "(\<not> has_placeholder s \<longrightarrow> resolve_env_vars env s = s) \<and>
   (\<not> has_marker s \<longrightarrow> resolve_env_vars env s = s) \<and>
   (is_var_name n \<and> env n = None \<longrightarrow>
      resolve_env_vars env (''${'' @ n @ ''}'') = ''${'' @ n @ ''}'' \<and>
      resolve_env_vars env (resolve_env_vars env (''${'' @ n @ ''}'')) = ''${'' @ n @ ''}'') \<and>
   (is_var_name n \<and> env n = Some v \<longrightarrow> resolve_env_vars env (''${'' @ n @ ''}'') = v)"
proof (intro conjI impI)
  assume "\<not> has_placeholder s"
  then show "resolve_env_vars env s = s" by (rule resolve_no_placeholder)
next
  assume "\<not> has_marker s"
  then show "resolve_env_vars env s = s"
    by (intro resolve_no_placeholder no_marker_no_placeholder)
next
  assume a: "is_var_name n \<and> env n = None"
  then have r: "resolve_env_vars env (''${'' @ n @ ''}'') = ''${'' @ n @ ''}''"
    using resolve_single[of n env] by (simp add: getenv_def)
  show "resolve_env_vars env (''${'' @ n @ ''}'') = ''${'' @ n @ ''}''" by (rule r)
  show "resolve_env_vars env (resolve_env_vars env (''${'' @ n @ ''}'')) = ''${'' @ n @ ''}''"
    by (simp only: r)
next
  assume "is_var_name n \<and> env n = Some v"
  then show "resolve_env_vars env (''${'' @ n @ ''}'') = v"
    using resolve_single[of n env] by (simp add: getenv_def)
qed

theorem resolve_env_vars_properties_witness:
  "\<not> has_placeholder ''https://host/api?q=$x{}'' \<and>
   resolve_env_vars [''HOME'' \<mapsto> ''/root''] ''https://host/api?q=$x{}'' = ''https://host/api?q=$x{}'' \<and>
   is_var_name ''TOKEN'' \<and>
   resolve_env_vars [''HOME'' \<mapsto> ''/root''] ''${TOKEN}'' = ''${TOKEN}'' \<and>
   is_var_name ''HOME'' \<and>
   resolve_env_vars [''HOME'' \<mapsto> ''/root''] ''${HOME}'' = ''/root''"
proof -
  let ?env = "[''HOME'' \<mapsto> ''/root'']"
  have np: "\<not> has_placeholder ''https://host/api?q=$x{}''"
    by (simp add: match_var_def)
  have n1: "is_var_name ''TOKEN''" and n2: "is_var_name ''HOME''"
    by (simp_all add: is_var_name_def)
  have e1: "?env ''TOKEN'' = None" and e2: "?env ''HOME'' = Some ''/root''" by simp_all
  from resolve_env_vars_properties[of "''https://host/api?q=$x{}''" ?env "''TOKEN''" "''/root''"]
       resolve_env_vars_properties[of "''https://host/api?q=$x{}''" ?env "''HOME''" "''/root''"]
       np n1 n2 e1 e2
  show ?thesis by simp
qed

lemma json_at_resolve:
  "json_at (resolve_dict_env_vars env d) p = map_option (resolve_dict_env_vars env) (json_at d p)"
proof (induction p arbitrary: d)
  case Nil
  show ?case by simp
next
  case (Cons s p)
  show ?case
  proof (cases s)
    case (Key k)
    show ?thesis
      by (cases d) (simp_all add: Key Cons.IH map_of_map split: option.split)
  next
    case (Index i)
    show ?thesis
      by (cases d) (simp_all add: Index Cons.IH)
  qed
qed

text \<open>
  Claim C9. The recursive resolver maps a dict to a dict with the same keys in the same
  order and the resolved values, a list to the list of the resolved elements, a string
  to the resolved string, and returns null, a boolean and an integer as they are. Through
  any nesting: what stands at a path of the result is the resolved form of what stands at
  that path of the input. The function is total and has no error value.
\<close>

theorem resolve_dict_env_vars_structure:
  "(\<exists>items'. resolve_dict_env_vars env (JDict items) = JDict items' \<and>
       map fst items' = map fst items \<and>
       map snd items' = map (resolve_dict_env_vars env) (map snd items)) \<and>
   resolve_dict_env_vars env (JList xs) = JList (map (resolve_dict_env_vars env) xs) \<and>
   resolve_dict_env_vars env (JStr s) = JStr (resolve_env_vars env s) \<and>
   (is_scalar d \<longrightarrow> resolve_dict_env_vars env d = d) \<and>
   json_at (resolve_dict_env_vars env d) p = map_option (resolve_dict_env_vars env) (json_at d p)"
proof (intro conjI impI)
  show "\<exists>items'. resolve_dict_env_vars env (JDict items) = JDict items' \<and>
       map fst items' = map fst items \<and>
       map snd items' = map (resolve_dict_env_vars env) (map snd items)"
    by (simp add: case_prod_unfold comp_def)
  show "json_at (resolve_dict_env_vars env d) p = map_option (resolve_dict_env_vars env) (json_at d p)"
    by (rule json_at_resolve)
  assume "is_scalar d" then show "resolve_dict_env_vars env d = d"
    by (cases d) (simp_all add: is_scalar_def)
qed simp_all

theorem resolve_dict_env_vars_structure_witness:
  "is_scalar (JInt 50) \<and>
   resolve_dict_env_vars [''T'' \<mapsto> ''abc''] (JInt 50) = JInt 50 \<and>
   json_at (resolve_dict_env_vars [''T'' \<mapsto> ''abc'']
              (JDict [(''${T}'', JList [JInt 50, JStr ''x${T}y''])])) [Key ''${T}'', Index 1] =
     Some (JStr ''xabcy'')"
  using resolve_dict_env_vars_structure
          [of "[''T'' \<mapsto> ''abc'']" "[]" "[]" "[]" "JInt 50" "[]"]
        resolve_dict_env_vars_structure
          [of "[''T'' \<mapsto> ''abc'']" "[]" "[]" "[]"
              "JDict [(''${T}'', JList [JInt 50, JStr ''x${T}y''])]" "[Key ''${T}'', Index 1]"]
  by (simp add: is_scalar_def match_var_def getenv_def)

subsection \<open>Configuration loader\<close>

lemma check_sections_error:
  "check_sections cfg secs = Inl e \<Longrightarrow> e = TypeError \<or> (\<exists>s. e = ValueError (MissingSection s))"
  by (induction secs) (auto simp: py_contains_def split: sum.splits if_splits json.splits)

lemma map_of_resolved:
  "map_of (map (\<lambda>(key, v). (key, f v)) items) k = map_option f (map_of items k)"
  by (induction items) auto

lemma check_sections_dict:
  "check_sections (JDict items) [''grist'', ''demarches''] =
     (if map_of items ''grist'' = None then Inl (ValueError (MissingSection ''grist''))
      else if map_of items ''demarches'' = None then Inl (ValueError (MissingSection ''demarches''))
      else Inr ())"
  by (simp add: py_contains_def)

lemma load_config_parsed_error:
  "load_config path (Parsed document) env = Inl e \<Longrightarrow>
   e = TypeError \<or> (\<exists>s. e = ValueError (MissingSection s))"
  by (auto simp: load_config_def Let_def simp del: check_sections.simps
           split: sum.splits dest: check_sections_error)

text \<open>
  Claim C6, as the code has it. \<^verbatim>\<open>_load_config\<close> raises its own
  \<^verbatim>\<open>FileNotFoundError\<close>, with the path, exactly when \<^verbatim>\<open>open\<close> raises
  \<^verbatim>\<open>FileNotFoundError\<close>, and the \<^verbatim>\<open>ValueError\<close> of a malformed document, which
  wraps the parser's diagnostic, exactly when \<^verbatim>\<open>json.load\<close> raises
  \<^verbatim>\<open>JSONDecodeError\<close>. Every other exception of \<^verbatim>\<open>open\<close> and \<^verbatim>\<open>json.load\<close>
  leaves \<^verbatim>\<open>_load_config\<close> as it is: \<^verbatim>\<open>NotADirectoryError\<close> for a path through a
  regular file, \<^verbatim>\<open>IsADirectoryError\<close>, \<^verbatim>\<open>PermissionError\<close>, another
  \<^verbatim>\<open>OSError\<close>, \<^verbatim>\<open>UnicodeDecodeError\<close> for a file that is not UTF-8, the
  \<^verbatim>\<open>ValueError\<close> of an integer literal with too many digits, and
  \<^verbatim>\<open>RecursionError\<close>. The \<^verbatim>\<open>ValueError\<close> of a missing section is raised only
  for a document that was parsed. For a document that is a JSON object it is raised
  exactly when the key \<^verbatim>\<open>grist\<close> or the key \<^verbatim>\<open>demarches\<close> is absent
  (\<^verbatim>\<open>grist\<close> is reported first), and otherwise the document is returned with the
  placeholders resolved, whether or not they resolved.
\<close>

theorem load_config_outcomes:
  "((\<exists>p. load_config path content env = Inl (FileNotFoundError p)) = (content = Missing)) \<and>
   load_config path Missing env = Inl (FileNotFoundError path) \<and>
   ((\<exists>p diagnostic. load_config path content env = Inl (ValueError (JsonFormat p diagnostic))) =
      (\<exists>diagnostic. content = Unparsable diagnostic)) \<and>
   load_config path (Unparsable diagnostic) env = Inl (ValueError (JsonFormat path diagnostic)) \<and>
   load_config path ThroughFile env = Inl NotADirectoryError \<and>
   load_config path Directory env = Inl IsADirectoryError \<and>
   load_config path Forbidden env = Inl PermissionError \<and>
   load_config path (Unreadable errno) env = Inl (OSError errno) \<and>
   load_config path NotUnicode env = Inl UnicodeDecodeError \<and>
   load_config path LongInteger env = Inl (ValueError IntegerDigits) \<and>
   load_config path DeepNesting env = Inl RecursionError \<and>
   ((\<exists>s. load_config path content env = Inl (ValueError (MissingSection s))) \<longrightarrow>
      (\<exists>document. content = Parsed document)) \<and>
   (content = Parsed (JDict items) \<longrightarrow>
      ((\<exists>s. load_config path content env = Inl (ValueError (MissingSection s))) =
         (map_of items ''grist'' = None \<or> map_of items ''demarches'' = None)) \<and>
      load_config path content env =
        (if map_of items ''grist'' = None then Inl (ValueError (MissingSection ''grist''))
         else if map_of items ''demarches'' = None
           then Inl (ValueError (MissingSection ''demarches''))
         else Inr (resolve_dict_env_vars env (JDict items))))"
proof -
  have a: "(\<exists>p. load_config path content env = Inl (FileNotFoundError p)) = (content = Missing)"
  proof (cases content)
    case (Parsed document)
    then show ?thesis using load_config_parsed_error[of path document env] by auto
  qed (simp_all add: load_config_def)
  have b: "(\<exists>p diagnostic. load_config path content env = Inl (ValueError (JsonFormat p diagnostic))) =
     (\<exists>diagnostic. content = Unparsable diagnostic)"
  proof (cases content)
    case (Parsed document)
    then show ?thesis using load_config_parsed_error[of path document env] by auto
  qed (simp_all add: load_config_def)
  have c: "load_config path Missing env = Inl (FileNotFoundError path)"
    "load_config path (Unparsable diagnostic) env = Inl (ValueError (JsonFormat path diagnostic))"
    "load_config path ThroughFile env = Inl NotADirectoryError"
    "load_config path Directory env = Inl IsADirectoryError"
    "load_config path Forbidden env = Inl PermissionError"
    "load_config path (Unreadable errno) env = Inl (OSError errno)"
    "load_config path NotUnicode env = Inl UnicodeDecodeError"
    "load_config path LongInteger env = Inl (ValueError IntegerDigits)"
    "load_config path DeepNesting env = Inl RecursionError"
    by (simp_all add: load_config_def)
  have d: "(\<exists>s. load_config path content env = Inl (ValueError (MissingSection s))) \<longrightarrow>
      (\<exists>document. content = Parsed document)"
    by (cases content) (simp_all add: load_config_def)
  have e: "content = Parsed (JDict items) \<longrightarrow>
      load_config path content env =
        (if map_of items ''grist'' = None then Inl (ValueError (MissingSection ''grist''))
         else if map_of items ''demarches'' = None
           then Inl (ValueError (MissingSection ''demarches''))
         else Inr (resolve_dict_env_vars env (JDict items)))"
    by (auto simp: load_config_def py_contains_def map_of_resolved Let_def)
  have f: "content = Parsed (JDict items) \<longrightarrow>
      ((\<exists>s. load_config path content env = Inl (ValueError (MissingSection s))) =
         (map_of items ''grist'' = None \<or> map_of items ''demarches'' = None)) \<and>
      load_config path content env =
        (if map_of items ''grist'' = None then Inl (ValueError (MissingSection ''grist''))
         else if map_of items ''demarches'' = None
           then Inl (ValueError (MissingSection ''demarches''))
         else Inr (resolve_dict_env_vars env (JDict items)))"
    using e by (simp split: if_splits)
  show ?thesis by (intro conjI) (rule a b c d f)+
qed

theorem load_config_outcomes_witness:
  "load_config ''config.json''
     (Parsed (JDict [(''grist'', JDict [(''api_key'', JStr ''${K}''), (''doc_id'', JStr ''${D}'')]),
                     (''demarches'', JList [])]))
     [''K'' \<mapsto> ''secret''] =
     Inr (JDict [(''grist'', JDict [(''api_key'', JStr ''secret''), (''doc_id'', JStr ''${D}'')]),
                 (''demarches'', JList [])]) \<and>
   load_config ''config.json'' (Parsed (JDict [(''grist'', JDict [])])) Map.empty =
     Inl (ValueError (MissingSection ''demarches'')) \<and>
   load_config ''config.json'' (Parsed (JDict [(''demarches'', JList [])])) Map.empty =
     Inl (ValueError (MissingSection ''grist'')) \<and>
   load_config ''config.json'' Missing Map.empty = Inl (FileNotFoundError ''config.json'') \<and>
   load_config ''config.json'' (Unparsable ''Expecting value: line 1 column 1 (char 0)'') Map.empty =
     Inl (ValueError (JsonFormat ''config.json'' ''Expecting value: line 1 column 1 (char 0)''))"
  using load_config_outcomes
          [of "''config.json''"
              "Parsed (JDict [(''grist'', JDict [(''api_key'', JStr ''${K}''), (''doc_id'', JStr ''${D}'')]),
                              (''demarches'', JList [])])"
              "[''K'' \<mapsto> ''secret'']" "[]" "[]"
              "[(''grist'', JDict [(''api_key'', JStr ''${K}''), (''doc_id'', JStr ''${D}'')]),
                (''demarches'', JList [])]"]
        load_config_outcomes
          [of "''config.json''" "Parsed (JDict [(''grist'', JDict [])])" Map.empty "[]" "[]"
              "[(''grist'', JDict [])]"]
        load_config_outcomes
          [of "''config.json''" "Parsed (JDict [(''demarches'', JList [])])" Map.empty
              "''Expecting value: line 1 column 1 (char 0)''" "[]"
              "[(''demarches'', JList [])]"]
  by (simp add: match_var_def getenv_def)

text \<open>
  The claim as the specification states it fails at four files. The file \<^verbatim>\<open>5\<close> is
  valid JSON without any section, and the membership test raises \<^verbatim>\<open>TypeError\<close>,
  which is none of the three errors and no return. At a path that runs through a regular
  file nothing exists, and the error is \<^verbatim>\<open>NotADirectoryError\<close>, which the first
  \<^verbatim>\<open>except\<close> clause does not catch. A file whose bytes are not UTF-8 is no JSON
  document, and the error is \<^verbatim>\<open>UnicodeDecodeError\<close>, which the second
  \<^verbatim>\<open>except\<close> clause does not catch. A document with an integer literal of five
  thousand digits is syntactically valid, and the error is the \<^verbatim>\<open>ValueError\<close> of the
  conversion, which is not wrapped.
\<close>

theorem load_config_scalar_counterexample:
  "load_config ''config.json'' (Parsed (JInt 5)) Map.empty = Inl TypeError \<and>
   load_config ''config.json/x'' ThroughFile Map.empty = Inl NotADirectoryError \<and>
   load_config ''config.json'' NotUnicode Map.empty = Inl UnicodeDecodeError \<and>
   load_config ''config.json'' LongInteger Map.empty = Inl (ValueError IntegerDigits)"
  by (simp add: load_config_def py_contains_def)

subsection \<open>Job registry\<close>

lemma load_demarche_loadable:
  "entry_loadable x \<Longrightarrow>
   load_demarche x =
     Inr (if entry_unresolved x then ([entry_warning x], None) else ([], Some (entry_config x)))"
  by (auto simp: entry_loadable_def load_demarche_def entry_unresolved_def entry_token_def
                 entry_warning_def entry_config_def entry_field_def dict_item_def dict_get_def
           split: json.splits option.splits)

lemma load_demarche_returns:
  "load_demarche x = Inr r \<Longrightarrow> entry_loadable x"
  by (auto simp: entry_loadable_def load_demarche_def dict_item_def dict_get_def
           split: json.splits option.splits if_splits sum.splits)

lemma load_demarches_loop_loadable:
  "list_all entry_loadable entries \<Longrightarrow>
   load_demarches_loop entries =
     Inr (map entry_warning (filter entry_unresolved entries),
          map entry_config (filter (\<lambda>x. \<not> entry_unresolved x) entries))"
  by (induction entries) (auto simp: load_demarche_loadable)

lemma load_demarches_loop_returns:
  "load_demarches_loop entries = Inr r \<Longrightarrow> list_all entry_loadable entries"
  by (induction entries arbitrary: r)
     (auto split: sum.splits prod.splits dest: load_demarche_returns)

text \<open>
  Claim C2, as the code has it. \<^verbatim>\<open>_load_demarches\<close> goes through the entries in
  document order. An entry whose token starts with \<^verbatim>\<open>${\<close> gives a warning with its
  number and the token text, which names the variable, and no record. Every other entry
  gives exactly one record, also when its token is empty or absent or holds a marker
  after its first character. So, when no entry makes the loop raise, the list returned
  holds the records of exactly the entries whose token does not start with the marker,
  in document order, and the loop raises on no entry exactly when every entry is an
  object with a string token (or none), a number, and a name if its token is kept.
\<close>

theorem load_demarches_keeps_resolved_entries:
  "subscript cfg ''demarches'' = Inr (JList entries) \<Longrightarrow>
   (list_all entry_loadable entries \<longrightarrow>
      load_demarches cfg =
        Inr (map entry_warning (filter entry_unresolved entries),
             map entry_config (filter (\<lambda>x. \<not> entry_unresolved x) entries))) \<and>
   ((\<exists>r. load_demarches cfg = Inr r) \<longrightarrow> list_all entry_loadable entries)"
  by (auto simp: load_demarches_def py_iter_def load_demarches_loop_loadable
           dest: load_demarches_loop_returns)


theorem load_demarches_keeps_resolved_entries_witness:
  "load_demarches mixed_config =
     Inr ([TokenNonResolu (JInt 2) ''${TOKEN_B}''],
          [\<lparr>number = JInt 1, name = JStr ''A'', api_token = ''tokenA'',
            api_url = JStr default_api_url, enabled = JBool True,
            sync_config = JDict [], filters = JDict []\<rparr>])"
  using load_demarches_keeps_resolved_entries
          [of mixed_config
              "[JDict [(''number'', JInt 1), (''name'', JStr ''A''), (''api_token'', JStr ''tokenA'')],
                JDict [(''number'', JInt 2), (''name'', JStr ''B''),
                       (''api_token'', JStr ''${TOKEN_B}'')]]"]
  by (simp add: mixed_config_def subscript_def dict_item_def dict_get_def entry_loadable_def
                entry_unresolved_def entry_token_def entry_warning_def entry_config_def
                entry_field_def)

text \<open>
  The claim as the specification states it fails: an entry with an empty token and an
  entry whose token still contains a placeholder are both kept, without a warning.
\<close>

theorem load_demarches_lax_counterexample:
  "load_demarches lax_config =
     Inr ([],
          [\<lparr>number = JInt 7, name = JStr ''G'', api_token = [],
            api_url = JStr default_api_url, enabled = JBool True,
            sync_config = JDict [], filters = JDict []\<rparr>,
           \<lparr>number = JInt 8, name = JStr ''H'', api_token = ''Bearer ${TOKEN_H}'',
            api_url = JStr default_api_url, enabled = JBool True,
            sync_config = JDict [], filters = JDict []\<rparr>])"
  by (simp add: lax_config_def load_demarches_def load_demarche_def subscript_def dict_item_def
                dict_get_def py_iter_def)

subsection \<open>Environment stager\<close>

lemmas stage_eval =
  set_environment_for_demarche_def stage_context_def get_demarche_config_def
  token_invalid_def credential_slots_def grist_slots_def filter_slots_def sync_slots_def
  get_grist_config_def subscript_def dict_item_def dict_get_def py_get_def py_iter_def
  py_join_def py_str_def py_lower_def lower_char_def capital_letters_def small_letters_def
  setenv_def load_dotenv_override_def show_int_def digit_char_def validate_token_def
  access_confirmed_def

lemma validate_token_True: "validate_token outcome = True"
  by (simp add: validate_token_def split: probe_outcome.split option.split sum.split)

lemma slots_probe:
  "credential_slots (w\<lparr>probe := p\<rparr>) d num = credential_slots w d num"
  "filter_slots (w\<lparr>probe := p\<rparr>) d = filter_slots w d"
  "sync_slots (w\<lparr>probe := p\<rparr>) d = sync_slots w d"
  by (simp_all add: credential_slots_def filter_slots_def sync_slots_def cong: sum.case_cong)

lemma stage_context_probe:
  "stage_context (w\<lparr>probe := p\<rparr>) mgr env d num = stage_context w mgr env d num"
  by (simp add: stage_context_def slots_probe cong: sum.case_cong)

text \<open>
  Claim C10. \<^verbatim>\<open>set_environment_for_demarche\<close> returns \<^verbatim>\<open>False\<close> exactly when
  the number matches no job or the matched job has an empty token or a token that starts
  with \<^verbatim>\<open>${\<close>, and then the environment it leaves is the environment it found: no
  slot has been written.
\<close>

theorem staging_failure_writes_nothing:
  "(set_environment_for_demarche w mgr env num = Inr (False, env')) =
   (env' = env \<and>
    (case get_demarche_config mgr num of None \<Rightarrow> True | Some d \<Rightarrow> token_invalid d))"
  by (auto simp: set_environment_for_demarche_def validate_token_True
           split: option.splits sum.splits)

theorem staging_failure_writes_nothing_witness:
  "set_environment_for_demarche calm_world sample_manager [''PARALLEL'' \<mapsto> ''false''] (JInt 999)
     = Inr (False, [''PARALLEL'' \<mapsto> ''false'']) \<and>
   set_environment_for_demarche calm_world sample_manager [''PARALLEL'' \<mapsto> ''false''] (JInt 4)
     = Inr (False, [''PARALLEL'' \<mapsto> ''false''])"
proof -
  have a: "get_demarche_config sample_manager (JInt 999) = None"
    by (simp add: get_demarche_config_def sample_manager_def job_a_def job_b_def job_off_def
                  job_empty_def)
  have b: "get_demarche_config sample_manager (JInt 4) = Some job_empty"
    by (simp add: get_demarche_config_def sample_manager_def job_a_def job_b_def job_off_def
                  job_empty_def)
  have c: "token_invalid job_empty" by (simp add: token_invalid_def job_empty_def)
  show ?thesis
    using staging_failure_writes_nothing
            [of calm_world sample_manager "[''PARALLEL'' \<mapsto> ''false'']" "JInt 999"
                "[''PARALLEL'' \<mapsto> ''false'']"]
          staging_failure_writes_nothing
            [of calm_world sample_manager "[''PARALLEL'' \<mapsto> ''false'']" "JInt 4"
                "[''PARALLEL'' \<mapsto> ''false'']"]
          a b c
    by simp
qed

text \<open>
  Claim C3, as the code has it. For a job whose token is not empty and does not start
  with \<^verbatim>\<open>${\<close>, the outcome of \<^verbatim>\<open>set_environment_for_demarche\<close> does not depend
  on the answer to the probe: it returns \<^verbatim>\<open>True\<close> with the staged environment when the
  writes of the context complete, it raises what they raise otherwise, and it never
  returns \<^verbatim>\<open>False\<close>.
\<close>

theorem staging_independent_of_probe:
  "get_demarche_config mgr num = Some d \<Longrightarrow> \<not> token_invalid d \<Longrightarrow>
   (\<forall>p. set_environment_for_demarche (w\<lparr>probe := p\<rparr>) mgr env num =
         (case stage_context w mgr env d num of
            Inl e \<Rightarrow> Inl e
          | Inr env' \<Rightarrow> Inr (True, env'))) \<and>
   (\<forall>p env'. set_environment_for_demarche (w\<lparr>probe := p\<rparr>) mgr env num \<noteq> Inr (False, env'))"
  by (auto simp: set_environment_for_demarche_def validate_token_True stage_context_probe
           split: sum.splits)

theorem staging_independent_of_probe_witness:
  "get_demarche_config sample_manager (JInt 2) = Some job_b \<and>
   \<not> token_invalid job_b \<and>
   (case set_environment_for_demarche
           (calm_world\<lparr>probe := (\<lambda>url token n. ProbeRaised ''timed out'')\<rparr>)
           sample_manager Map.empty (JInt 2) of
      Inl e \<Rightarrow> False | Inr (staged, env') \<Rightarrow> staged) \<and>
   (case set_environment_for_demarche
           (calm_world\<lparr>probe := (\<lambda>url token n. ProbeResponse 500 None)\<rparr>)
           sample_manager Map.empty (JInt 2) of
      Inl e \<Rightarrow> False | Inr (staged, env') \<Rightarrow> staged) \<and>
   (case set_environment_for_demarche
           (calm_world\<lparr>probe := (\<lambda>url token n.
              ProbeResponse 200 (Some (JDict [(''errors'', JList [JDict []])])))\<rparr>)
           sample_manager Map.empty (JInt 2) of
      Inl e \<Rightarrow> False | Inr (staged, env') \<Rightarrow> staged)"
proof -
  have a: "get_demarche_config sample_manager (JInt 2) = Some job_b"
    by (simp add: get_demarche_config_def sample_manager_def job_a_def job_b_def)
  have b: "\<not> token_invalid job_b" by (simp add: token_invalid_def job_b_def)
  have c: "\<exists>env'. stage_context calm_world sample_manager Map.empty job_b (JInt 2) = Inr env'"
    by (simp add: stage_eval calm_world_def sample_manager_def sample_grist_def job_b_def)
  show ?thesis
    using staging_independent_of_probe [OF a b, of calm_world Map.empty] a b c
    by auto
qed

text \<open>
  The claim as the specification states it fails: a token that is valid does not make
  the call return. With a filter \<^verbatim>\<open>"date_depot_debut": null\<close> the assignment to
  \<^verbatim>\<open>os.environ\<close> raises \<^verbatim>\<open>TypeError\<close>.
\<close>

theorem staging_raises_counterexample:
  "get_demarche_config null_date_manager (JInt 5) = Some job_null_date \<and>
   api_token job_null_date = ''tokenN'' \<and>
   \<not> token_invalid job_null_date \<and>
   set_environment_for_demarche calm_world null_date_manager Map.empty (JInt 5) = Inl TypeError"
  by (simp add: stage_eval calm_world_def null_date_manager_def sample_grist_def job_null_date_def)

text \<open>
  Claim C1 at a failing input. The \<^verbatim>\<open>.env\<close> file defines
  \<^verbatim>\<open>DEMARCHES_API_TOKEN\<close>. Job 1 is staged, then job 2, both calls return
  \<^verbatim>\<open>True\<close>; the slot \<^verbatim>\<open>DEMARCHES_API_TOKEN\<close> then holds the value of the
  \<^verbatim>\<open>.env\<close> file and not the token of job 2, because
  \<^verbatim>\<open>load_dotenv(override=True)\<close> runs after the three credential slots are written.
  The slot \<^verbatim>\<open>DEMARCHES_API_URL\<close>, which the file does not define, holds the URL of job 2.
\<close>

theorem dotenv_overrides_staged_token:
  "(case set_environment_for_demarche legacy_world sample_manager Map.empty (JInt 1) of
      Inl e \<Rightarrow> None
    | Inr (staged_a, env_a) \<Rightarrow>
        (case set_environment_for_demarche legacy_world sample_manager env_a (JInt 2) of
           Inl e \<Rightarrow> None
         | Inr (staged_b, env_b) \<Rightarrow>
             Some (staged_a, staged_b, env_b ''DEMARCHES_API_TOKEN'', env_b ''DEMARCHES_API_URL'')))
   = Some (True, True, Some ''legacy'', Some ''https://b'') \<and>
   get_demarche_config sample_manager (JInt 2) = Some job_b \<and>
   api_token job_b = ''tokenB''"
  by (simp add: stage_eval legacy_world_def calm_world_def sample_manager_def sample_grist_def
                job_a_def job_b_def)

subsection \<open>Orchestrator\<close>

lemma slots_collaborator:
  "credential_slots (w\<lparr>grist_client := g, process_demarche := f\<rparr>) d num = credential_slots w d num"
  "filter_slots (w\<lparr>grist_client := g, process_demarche := f\<rparr>) d = filter_slots w d"
  "sync_slots (w\<lparr>grist_client := g, process_demarche := f\<rparr>) d = sync_slots w d"
  by (simp_all add: credential_slots_def filter_slots_def sync_slots_def cong: sum.case_cong)

lemma stage_context_collaborator:
  "stage_context (w\<lparr>grist_client := g, process_demarche := f\<rparr>) mgr env d num =
   stage_context w mgr env d num"
  by (simp add: stage_context_def slots_collaborator cong: sum.case_cong)

lemma staging_collaborator:
  "set_environment_for_demarche (w\<lparr>grist_client := g, process_demarche := f\<rparr>) mgr env num =
   set_environment_for_demarche w mgr env num"
  by (simp add: set_environment_for_demarche_def stage_context_collaborator
           cong: option.case_cong sum.case_cong if_cong)

lemma sync_single_demarche_identity:
  "demarche_number (sync_single_demarche w mgr env d) = number d"
  "demarche_name (sync_single_demarche w mgr env d) = name d"
  by (simp_all add: sync_single_demarche_def split: sum.split)

lemma sync_all_loop_results:
  "sync_all_loop w mgr env ds = Inr (results, env', calls) \<Longrightarrow>
   map demarche_number results = map number ds \<and> map demarche_name results = map name ds \<and>
   calls = map number ds"
proof (induction ds arbitrary: env results env' calls)
  case Nil
  then show ?case by simp
next
  case (Cons d ds)
  then show ?case
    by (auto simp: sync_single_demarche_identity env_failure_def Let_def
             split: sum.splits prod.splits if_splits)
qed

lemma isl_continue:
  "isl (case x of Inl e \<Rightarrow> Inl e | Inr (results, env', calls) \<Rightarrow> Inr (h results env' calls)) = isl x"
  by (cases x) auto

lemma sync_all_loop_collaborator:
  "isl (sync_all_loop (w\<lparr>grist_client := g, process_demarche := f\<rparr>) mgr env ds) =
   isl (sync_all_loop w mgr env ds)"
proof (induction ds arbitrary: env)
  case Nil
  show ?case by simp
next
  case (Cons d ds)
  show ?case
  proof (cases "set_environment_for_demarche w mgr env (number d)")
    case (Inl e)
    then show ?thesis by (simp add: staging_collaborator)
  next
    case (Inr r)
    obtain staged env1 where r: "r = (staged, env1)" by (cases r)
    show ?thesis
      using Cons.IH[of env1] Inr r
      by (simp add: staging_collaborator Let_def isl_continue)
  qed
qed

lemma try_sync_call:
  assumes "get_grist_config mgr = Inr (warnings, gc)"
    and "dict_item gc ''base_url'' = Inr base"
    and "dict_item gc ''api_key'' = Inr key"
    and "dict_item gc ''doc_id'' = Inr doc"
    and "grist_client w (base, key, doc) = None"
    and "sync_config d = JDict items"
  shows "try_sync w mgr env d =
           (case process_demarche w env (base, key, doc)
                   (number d, dict_get items ''parallel'' (JBool True),
                    dict_get items ''batch_size'' (JInt 50),
                    dict_get items ''max_workers'' (JInt 3)) of
              SyncRaised text \<Rightarrow> Inl text
            | SyncReturned ok \<Rightarrow> Inr ok)"
  using assms by (simp add: try_sync_def Let_def)

lemma try_sync_client:
  assumes "get_grist_config mgr = Inr (warnings, gc)"
    and "dict_item gc ''base_url'' = Inr base"
    and "dict_item gc ''api_key'' = Inr key"
    and "dict_item gc ''doc_id'' = Inr doc"
    and "grist_client w (base, key, doc) = Some msg"
  shows "try_sync w mgr env d = Inl msg"
  using assms by (simp add: try_sync_def)

lemma sync_single_demarche_caught:
  "try_sync w mgr env d = Inl t \<Longrightarrow>
   sync_single_demarche w mgr env d =
     \<lparr>demarche_number = number d, demarche_name = name d, success = False,
      dossiers_processed = 0, errors = [''Erreur lors de la synchronisation : '' @ t],
      duration_seconds = elapsed w d\<rparr>"
  by (simp add: sync_single_demarche_def sync_error_text_def)

lemma sync_all_loop_returns:
  "\<forall>d\<in>set ds. \<forall>e. \<exists>r. set_environment_for_demarche w mgr e (number d) = Inr r \<Longrightarrow>
   \<exists>r. sync_all_loop w mgr env ds = Inr r"
proof (induction ds arbitrary: env)
  case Nil
  show ?case by simp
next
  case (Cons d ds)
  have "d \<in> set (d # ds)" by simp
  with Cons.prems obtain r where r: "set_environment_for_demarche w mgr env (number d) = Inr r"
    by blast
  obtain staged env_b where p: "r = (staged, env_b)" by (cases r)
  from Cons.prems have "\<forall>d\<in>set ds. \<forall>e. \<exists>r. set_environment_for_demarche w mgr e (number d) = Inr r"
    by simp
  then obtain q where q: "sync_all_loop w mgr env_b ds = Inr q" using Cons.IH by blast
  obtain results env_c calls where "q = (results, env_c, calls)" by (cases q)
  with r p q show ?case by (simp add: Let_def)
qed

text \<open>
  Claim C4. Take a job for which the statements of the \<^verbatim>\<open>try\<close> of
  \<^verbatim>\<open>_sync_single_demarche\<close> reach the call of the collaborator: the Grist section has
  its three fields, \<^verbatim>\<open>GristClient\<close> does not raise, and \<^verbatim>\<open>sync_config\<close> is a dict.
  If the collaborator, called with that client, the number of the job and the three
  parameters read from \<^verbatim>\<open>sync_config\<close>, raises an exception with the text \<open>msg\<close>,
  then the result of the job has \<^verbatim>\<open>success=False\<close> and the one error message
  ``Erreur lors de la synchronisation : '' followed by \<open>msg\<close>; the same holds when
  \<^verbatim>\<open>GristClient\<close> raises, and for whatever else the \<^verbatim>\<open>try\<close> catches. In the loop
  of \<^verbatim>\<open>sync_all_demarches\<close> that result is recorded for the job and the loop goes on
  with the next job. A run that returns has one result for each enabled job, in document
  order. Whether the run returns does not depend on what the collaborator does, and the
  run returns whenever \<^verbatim>\<open>set_environment_for_demarche\<close> raises for no enabled job.
\<close>

theorem sync_exception_is_recorded:
  "(get_grist_config mgr = Inr (warnings, gc) \<and> dict_item gc ''base_url'' = Inr base \<and>
    dict_item gc ''api_key'' = Inr key \<and> dict_item gc ''doc_id'' = Inr doc \<and>
    grist_client w (base, key, doc) = None \<and> sync_config d = JDict items \<and>
    process_demarche w env_b (base, key, doc)
      (number d, dict_get items ''parallel'' (JBool True),
       dict_get items ''batch_size'' (JInt 50), dict_get items ''max_workers'' (JInt 3)) =
      SyncRaised msg \<longrightarrow>
      sync_single_demarche w mgr env_b d =
        \<lparr>demarche_number = number d, demarche_name = name d, success = False,
         dossiers_processed = 0, errors = [''Erreur lors de la synchronisation : '' @ msg],
         duration_seconds = elapsed w d\<rparr> \<and>
      (set_environment_for_demarche w mgr env (number d) = Inr (True, env_b) \<longrightarrow>
         sync_all_loop w mgr env (d # rest) =
           (case sync_all_loop w mgr env_b rest of
              Inl e \<Rightarrow> Inl e
            | Inr (results, env2, calls) \<Rightarrow>
                Inr (\<lparr>demarche_number = number d, demarche_name = name d, success = False,
                      dossiers_processed = 0,
                      errors = [''Erreur lors de la synchronisation : '' @ msg],
                      duration_seconds = elapsed w d\<rparr> # results, env2, number d # calls)))) \<and>
   (get_grist_config mgr = Inr (warnings, gc) \<and> dict_item gc ''base_url'' = Inr base \<and>
    dict_item gc ''api_key'' = Inr key \<and> dict_item gc ''doc_id'' = Inr doc \<and>
    grist_client w (base, key, doc) = Some msg \<longrightarrow>
      sync_single_demarche w mgr env_b d =
        \<lparr>demarche_number = number d, demarche_name = name d, success = False,
         dossiers_processed = 0, errors = [''Erreur lors de la synchronisation : '' @ msg],
         duration_seconds = elapsed w d\<rparr>) \<and>
   (try_sync w mgr env_b d = Inl t \<longrightarrow>
      sync_single_demarche w mgr env_b d =
        \<lparr>demarche_number = number d, demarche_name = name d, success = False,
         dossiers_processed = 0, errors = [''Erreur lors de la synchronisation : '' @ t],
         duration_seconds = elapsed w d\<rparr>) \<and>
   (set_environment_for_demarche w mgr env (number d) = Inr (True, env_b) \<longrightarrow>
      sync_all_loop w mgr env (d # rest) =
        (case sync_all_loop w mgr env_b rest of
           Inl e \<Rightarrow> Inl e
         | Inr (results, env2, calls) \<Rightarrow>
             Inr (sync_single_demarche w mgr env_b d # results, env2, number d # calls))) \<and>
   (sync_all_demarches w mgr env = Inr (results, env', calls) \<longrightarrow>
      length results = length (get_enabled_demarches mgr) \<and>
      map demarche_number results = map number (get_enabled_demarches mgr) \<and>
      map demarche_name results = map name (get_enabled_demarches mgr)) \<and>
   isl (sync_all_demarches (w\<lparr>grist_client := g, process_demarche := f\<rparr>) mgr env) =
     isl (sync_all_demarches w mgr env) \<and>
   ((\<forall>j\<in>set (get_enabled_demarches mgr). \<forall>e.
       \<exists>r. set_environment_for_demarche w mgr e (number j) = Inr r) \<longrightarrow>
      (\<exists>r. sync_all_demarches (w\<lparr>grist_client := g, process_demarche := f\<rparr>) mgr env = Inr r))"
proof -
  have step: "set_environment_for_demarche w mgr env (number d) = Inr (True, env_b) \<longrightarrow>
      sync_all_loop w mgr env (d # rest) =
        (case sync_all_loop w mgr env_b rest of
           Inl e \<Rightarrow> Inl e
         | Inr (results, env2, calls) \<Rightarrow>
             Inr (sync_single_demarche w mgr env_b d # results, env2, number d # calls))"
    by (simp add: Let_def)
  have call: "get_grist_config mgr = Inr (warnings, gc) \<and> dict_item gc ''base_url'' = Inr base \<and>
    dict_item gc ''api_key'' = Inr key \<and> dict_item gc ''doc_id'' = Inr doc \<and>
    grist_client w (base, key, doc) = None \<and> sync_config d = JDict items \<and>
    process_demarche w env_b (base, key, doc)
      (number d, dict_get items ''parallel'' (JBool True),
       dict_get items ''batch_size'' (JInt 50), dict_get items ''max_workers'' (JInt 3)) =
      SyncRaised msg \<longrightarrow>
      sync_single_demarche w mgr env_b d =
        \<lparr>demarche_number = number d, demarche_name = name d, success = False,
         dossiers_processed = 0, errors = [''Erreur lors de la synchronisation : '' @ msg],
         duration_seconds = elapsed w d\<rparr> \<and>
      (set_environment_for_demarche w mgr env (number d) = Inr (True, env_b) \<longrightarrow>
         sync_all_loop w mgr env (d # rest) =
           (case sync_all_loop w mgr env_b rest of
              Inl e \<Rightarrow> Inl e
            | Inr (results, env2, calls) \<Rightarrow>
                Inr (\<lparr>demarche_number = number d, demarche_name = name d, success = False,
                      dossiers_processed = 0,
                      errors = [''Erreur lors de la synchronisation : '' @ msg],
                      duration_seconds = elapsed w d\<rparr> # results, env2, number d # calls)))"
  proof (intro impI, elim conjE)
    assume h: "get_grist_config mgr = Inr (warnings, gc)" "dict_item gc ''base_url'' = Inr base"
      "dict_item gc ''api_key'' = Inr key" "dict_item gc ''doc_id'' = Inr doc"
      "grist_client w (base, key, doc) = None" "sync_config d = JDict items"
    assume r: "process_demarche w env_b (base, key, doc)
      (number d, dict_get items ''parallel'' (JBool True),
       dict_get items ''batch_size'' (JInt 50), dict_get items ''max_workers'' (JInt 3)) =
      SyncRaised msg"
    have "try_sync w mgr env_b d = Inl msg"
      using try_sync_call[OF h, of env_b] r by simp
    then have s: "sync_single_demarche w mgr env_b d =
        \<lparr>demarche_number = number d, demarche_name = name d, success = False,
         dossiers_processed = 0, errors = [''Erreur lors de la synchronisation : '' @ msg],
         duration_seconds = elapsed w d\<rparr>"
      by (rule sync_single_demarche_caught)
    show "sync_single_demarche w mgr env_b d =
        \<lparr>demarche_number = number d, demarche_name = name d, success = False,
         dossiers_processed = 0, errors = [''Erreur lors de la synchronisation : '' @ msg],
         duration_seconds = elapsed w d\<rparr> \<and>
      (set_environment_for_demarche w mgr env (number d) = Inr (True, env_b) \<longrightarrow>
         sync_all_loop w mgr env (d # rest) =
           (case sync_all_loop w mgr env_b rest of
              Inl e \<Rightarrow> Inl e
            | Inr (results, env2, calls) \<Rightarrow>
                Inr (\<lparr>demarche_number = number d, demarche_name = name d, success = False,
                      dossiers_processed = 0,
                      errors = [''Erreur lors de la synchronisation : '' @ msg],
                      duration_seconds = elapsed w d\<rparr> # results, env2, number d # calls)))"
    proof (intro conjI impI)
      show "sync_single_demarche w mgr env_b d =
        \<lparr>demarche_number = number d, demarche_name = name d, success = False,
         dossiers_processed = 0, errors = [''Erreur lors de la synchronisation : '' @ msg],
         duration_seconds = elapsed w d\<rparr>"
        by (rule s)
    next
      assume "set_environment_for_demarche w mgr env (number d) = Inr (True, env_b)"
      with step have "sync_all_loop w mgr env (d # rest) =
        (case sync_all_loop w mgr env_b rest of
           Inl e \<Rightarrow> Inl e
         | Inr (results, env2, calls) \<Rightarrow>
             Inr (sync_single_demarche w mgr env_b d # results, env2, number d # calls))"
        by (rule mp)
      then show "sync_all_loop w mgr env (d # rest) =
           (case sync_all_loop w mgr env_b rest of
              Inl e \<Rightarrow> Inl e
            | Inr (results, env2, calls) \<Rightarrow>
                Inr (\<lparr>demarche_number = number d, demarche_name = name d, success = False,
                      dossiers_processed = 0,
                      errors = [''Erreur lors de la synchronisation : '' @ msg],
                      duration_seconds = elapsed w d\<rparr> # results, env2, number d # calls))"
        by (simp only: s)
    qed
  qed
  have client: "get_grist_config mgr = Inr (warnings, gc) \<and> dict_item gc ''base_url'' = Inr base \<and>
    dict_item gc ''api_key'' = Inr key \<and> dict_item gc ''doc_id'' = Inr doc \<and>
    grist_client w (base, key, doc) = Some msg \<longrightarrow>
      sync_single_demarche w mgr env_b d =
        \<lparr>demarche_number = number d, demarche_name = name d, success = False,
         dossiers_processed = 0, errors = [''Erreur lors de la synchronisation : '' @ msg],
         duration_seconds = elapsed w d\<rparr>"
  proof (intro impI, elim conjE)
    assume h: "get_grist_config mgr = Inr (warnings, gc)" "dict_item gc ''base_url'' = Inr base"
      "dict_item gc ''api_key'' = Inr key" "dict_item gc ''doc_id'' = Inr doc"
      "grist_client w (base, key, doc) = Some msg"
    show "sync_single_demarche w mgr env_b d =
        \<lparr>demarche_number = number d, demarche_name = name d, success = False,
         dossiers_processed = 0, errors = [''Erreur lors de la synchronisation : '' @ msg],
         duration_seconds = elapsed w d\<rparr>"
      by (rule sync_single_demarche_caught) (rule try_sync_client[OF h])
  qed
  have caught: "try_sync w mgr env_b d = Inl t \<longrightarrow>
      sync_single_demarche w mgr env_b d =
        \<lparr>demarche_number = number d, demarche_name = name d, success = False,
         dossiers_processed = 0, errors = [''Erreur lors de la synchronisation : '' @ t],
         duration_seconds = elapsed w d\<rparr>"
    by (simp add: sync_single_demarche_caught)
  have each: "sync_all_demarches w mgr env = Inr (results, env', calls) \<longrightarrow>
      length results = length (get_enabled_demarches mgr) \<and>
      map demarche_number results = map number (get_enabled_demarches mgr) \<and>
      map demarche_name results = map name (get_enabled_demarches mgr)"
  proof
    assume a: "sync_all_demarches w mgr env = Inr (results, env', calls)"
    then have r: "map demarche_number results = map number (get_enabled_demarches mgr) \<and>
        map demarche_name results = map name (get_enabled_demarches mgr) \<and>
        calls = map number (get_enabled_demarches mgr)"
      unfolding sync_all_demarches_def by (rule sync_all_loop_results)
    then have "length (map demarche_number results) = length (map number (get_enabled_demarches mgr))"
      by simp
    then have "length results = length (get_enabled_demarches mgr)" by simp
    with r show "length results = length (get_enabled_demarches mgr) \<and>
      map demarche_number results = map number (get_enabled_demarches mgr) \<and>
      map demarche_name results = map name (get_enabled_demarches mgr)" by simp
  qed
  have indep: "isl (sync_all_demarches (w\<lparr>grist_client := g, process_demarche := f\<rparr>) mgr env) =
     isl (sync_all_demarches w mgr env)"
    by (simp add: sync_all_demarches_def get_enabled_demarches_def sync_all_loop_collaborator)
  have returns: "(\<forall>j\<in>set (get_enabled_demarches mgr). \<forall>e.
       \<exists>r. set_environment_for_demarche w mgr e (number j) = Inr r) \<longrightarrow>
      (\<exists>r. sync_all_demarches (w\<lparr>grist_client := g, process_demarche := f\<rparr>) mgr env = Inr r)"
  proof
    assume "\<forall>j\<in>set (get_enabled_demarches mgr). \<forall>e.
       \<exists>r. set_environment_for_demarche w mgr e (number j) = Inr r"
    then have "\<forall>j\<in>set (get_enabled_demarches mgr). \<forall>e.
       \<exists>r. set_environment_for_demarche (w\<lparr>grist_client := g, process_demarche := f\<rparr>) mgr e
              (number j) = Inr r"
      by (simp add: staging_collaborator)
    then show "\<exists>r. sync_all_demarches (w\<lparr>grist_client := g, process_demarche := f\<rparr>) mgr env = Inr r"
      unfolding sync_all_demarches_def by (rule sync_all_loop_returns)
  qed
  show ?thesis by (intro conjI) (rule call client caught step each indep returns)+
qed

lemmas sync_eval =
  sync_all_demarches_def get_enabled_demarches_def sync_single_demarche_def try_sync_def
  sync_error_text_def env_failure_def not_found_def

theorem sync_exception_is_recorded_witness:
  "sync_single_demarche failing_world trio_manager Map.empty job_b =
     \<lparr>demarche_number = JInt 2, demarche_name = JStr ''B'', success = False,
      dossiers_processed = 0, errors = [''Erreur lors de la synchronisation : boom''],
      duration_seconds = 7\<rparr> \<and>
   (\<exists>r. sync_all_demarches failing_world trio_manager Map.empty = Inr r) \<and>
   (case sync_all_demarches failing_world trio_manager Map.empty of
      Inl e \<Rightarrow> []
    | Inr (results, env', calls) \<Rightarrow>
        map (\<lambda>r. (demarche_number r, success r, errors r)) results) =
     [(JInt 1, True, []),
      (JInt 2, False, [''Erreur lors de la synchronisation : boom'']),
      (JInt 6, True, [])]"
proof -
  have g: "get_grist_config trio_manager =
        Inr ([], [(''base_url'', JStr ''https://grist''), (''api_key'', JStr ''key''),
                  (''doc_id'', JStr ''doc'')])"
    by (simp add: get_grist_config_def subscript_def dict_item_def trio_manager_def
                  sample_grist_def)
  have k: "dict_item [(''base_url'', JStr ''https://grist''), (''api_key'', JStr ''key''),
                      (''doc_id'', JStr ''doc'')] ''base_url'' = Inr (JStr ''https://grist'')"
    "dict_item [(''base_url'', JStr ''https://grist''), (''api_key'', JStr ''key''),
                (''doc_id'', JStr ''doc'')] ''api_key'' = Inr (JStr ''key'')"
    "dict_item [(''base_url'', JStr ''https://grist''), (''api_key'', JStr ''key''),
                (''doc_id'', JStr ''doc'')] ''doc_id'' = Inr (JStr ''doc'')"
    by (simp_all add: dict_item_def)
  have c: "grist_client failing_world (JStr ''https://grist'', JStr ''key'', JStr ''doc'') = None"
    by (simp add: failing_world_def calm_world_def)
  have s: "sync_config job_b = JDict []" by (simp add: job_b_def)
  have p: "process_demarche failing_world Map.empty
             (JStr ''https://grist'', JStr ''key'', JStr ''doc'')
             (number job_b, dict_get [] ''parallel'' (JBool True),
              dict_get [] ''batch_size'' (JInt 50), dict_get [] ''max_workers'' (JInt 3)) =
           SyncRaised ''boom''"
    by (simp add: failing_world_def calm_world_def job_b_def)
  have stage: "\<forall>j\<in>set (get_enabled_demarches trio_manager). \<forall>e.
       \<exists>r. set_environment_for_demarche calm_world trio_manager e (number j) = Inr r"
    by (auto simp add: get_enabled_demarches_def stage_eval calm_world_def trio_manager_def
                       sample_grist_def job_a_def job_b_def job_off_def job_c_def)
  have "sync_single_demarche failing_world trio_manager Map.empty job_b =
        \<lparr>demarche_number = number job_b, demarche_name = name job_b, success = False,
         dossiers_processed = 0, errors = [''Erreur lors de la synchronisation : '' @ ''boom''],
         duration_seconds = elapsed failing_world job_b\<rparr>"
    using sync_exception_is_recorded
            [where w = failing_world and mgr = trio_manager and env_b = Map.empty
               and d = job_b and t = "''boom''" and msg = "''boom''" and env = Map.empty
               and rest = "[]" and results = "[]" and env' = Map.empty and calls = "[]"
               and g = "\<lambda>c. None" and f = "\<lambda>env c a. SyncReturned True"
               and warnings = "[]"
               and gc = "[(''base_url'', JStr ''https://grist''), (''api_key'', JStr ''key''),
                          (''doc_id'', JStr ''doc'')]"
               and base = "JStr ''https://grist''" and key = "JStr ''key''"
               and doc = "JStr ''doc''" and items = "[]"]
          g k c s p
    by blast
  then have r: "sync_single_demarche failing_world trio_manager Map.empty job_b =
     \<lparr>demarche_number = JInt 2, demarche_name = JStr ''B'', success = False,
      dossiers_processed = 0, errors = [''Erreur lors de la synchronisation : boom''],
      duration_seconds = 7\<rparr>"
    by (simp add: job_b_def failing_world_def calm_world_def)
  have w: "calm_world\<lparr>grist_client := \<lambda>c. None,
             process_demarche :=
               \<lambda>env client args. if fst args = JInt 2 then SyncRaised ''boom''
                                  else SyncReturned True\<rparr> = failing_world"
    by (simp add: failing_world_def calm_world_def)
  have "\<exists>r. sync_all_demarches
               (calm_world\<lparr>grist_client := \<lambda>c. None,
                  process_demarche :=
                    \<lambda>env client args. if fst args = JInt 2 then SyncRaised ''boom''
                                       else SyncReturned True\<rparr>) trio_manager Map.empty = Inr r"
    using sync_exception_is_recorded
            [where w = calm_world and mgr = trio_manager and env_b = Map.empty
               and d = job_b and t = "''boom''" and msg = "''boom''" and env = Map.empty
               and rest = "[]" and results = "[]" and env' = Map.empty and calls = "[]"
               and g = "\<lambda>c. None"
               and f = "\<lambda>env client args. if fst args = JInt 2 then SyncRaised ''boom''
                                           else SyncReturned True"
               and warnings = "[]" and gc = "[]" and base = JNull and key = JNull
               and doc = JNull and items = "[]"]
          stage
    by blast
  then have ret: "\<exists>r. sync_all_demarches failing_world trio_manager Map.empty = Inr r"
    by (simp only: w)
  have run: "(case sync_all_demarches failing_world trio_manager Map.empty of
      Inl e \<Rightarrow> []
    | Inr (results, env', calls) \<Rightarrow>
        map (\<lambda>r. (demarche_number r, success r, errors r)) results) =
     [(JInt 1, True, []),
      (JInt 2, False, [''Erreur lors de la synchronisation : boom'']),
      (JInt 6, True, [])]"
    by (simp add: sync_eval stage_eval failing_world_def calm_world_def trio_manager_def
                  sample_grist_def job_a_def job_b_def job_off_def job_c_def)
  from r ret run show ?thesis by simp
qed

lemma sync_specific_skip:
  "get_demarche_config mgr x = Some d \<Longrightarrow> \<not> py_truthy (enabled d) \<Longrightarrow> \<not> forced \<Longrightarrow>
   sync_specific_demarches w mgr env (x # rest) forced =
   sync_specific_demarches w mgr env rest forced"
  by simp

lemma sync_specific_run:
  "get_demarche_config mgr x = Some d \<Longrightarrow> py_truthy (enabled d) \<or> forced \<Longrightarrow>
   sync_specific_demarches w mgr env (x # rest) forced =
     (case set_environment_for_demarche w mgr env x of
        Inl e \<Rightarrow> Inl e
      | Inr (staged, env') \<Rightarrow>
          (case sync_specific_demarches w mgr env' rest forced of
             Inl e \<Rightarrow> Inl e
           | Inr (results, env'', calls) \<Rightarrow>
               Inr ((if \<not> staged then env_failure x (name d)
                     else sync_single_demarche w mgr env' d) # results, env'', x # calls)))"
  by (auto simp: Let_def split: sum.splits prod.splits)

lemma sync_specific_unknown:
  "get_demarche_config mgr x = None \<Longrightarrow>
   sync_specific_demarches w mgr env (x # rest) forced =
     (case sync_specific_demarches w mgr env rest forced of
        Inl e \<Rightarrow> Inl e
      | Inr (results, env'', calls) \<Rightarrow> Inr (not_found w x # results, env'', calls))"
  by simp

lemma sync_specific_append:
  "sync_specific_demarches w mgr env (xs @ ys) forced =
     (case sync_specific_demarches w mgr env xs forced of
        Inl e \<Rightarrow> Inl e
      | Inr (results1, env1, calls1) \<Rightarrow>
          (case sync_specific_demarches w mgr env1 ys forced of
             Inl e \<Rightarrow> Inl e
           | Inr (results2, env2, calls2) \<Rightarrow>
               Inr (results1 @ results2, env2, calls1 @ calls2)))"
proof (induction xs arbitrary: env)
  case Nil
  show ?case by (simp split: sum.split prod.split)
next
  case (Cons x xs)
  show ?case
  proof (cases "get_demarche_config mgr x")
    case None
    show ?thesis
      by (simp add: sync_specific_unknown[OF None] Cons.IH del: sync_specific_demarches.simps
               split: sum.split prod.split)
  next
    case (Some d)
    show ?thesis
    proof (cases "py_truthy (enabled d) \<or> forced")
      case False
      then have a: "\<not> py_truthy (enabled d)" and b: "\<not> forced" by simp_all
      show ?thesis
        by (simp only: append_Cons sync_specific_skip[OF Some a b] Cons.IH)
    next
      case True
      show ?thesis
        by (simp add: sync_specific_run[OF Some True] Cons.IH del: sync_specific_demarches.simps
                 split: sum.split prod.split)
    qed
  qed
qed

text \<open>
  Claim C7. In \<^verbatim>\<open>sync_specific_demarches\<close>, a number that matches no job, wherever
  it stands in the list, adds exactly the failed result ``not found'' (in the words of
  the code, ``Demarche non trouvee dans la configuration'') at its place and nothing
  else: the numbers after it start from the environment the numbers before it left, and
  the calls of \<^verbatim>\<open>set_environment_for_demarche\<close> are those of the numbers before and
  after it. Without \<^verbatim>\<open>force_disabled\<close>, a number that matches a disabled job adds
  no result and no call. In particular a list with one unknown number returns one failed
  result and leaves the environment as it was.
\<close>

theorem sync_specific_skips_unknown_and_disabled:
  "(get_demarche_config mgr num = None \<longrightarrow>
      sync_specific_demarches w mgr env (before @ num # after) forced =
        (case sync_specific_demarches w mgr env before forced of
           Inl e \<Rightarrow> Inl e
         | Inr (results1, env1, calls1) \<Rightarrow>
             (case sync_specific_demarches w mgr env1 after forced of
                Inl e \<Rightarrow> Inl e
              | Inr (results2, env2, calls2) \<Rightarrow>
                  Inr (results1 @ not_found w num # results2, env2, calls1 @ calls2))) \<and>
      sync_specific_demarches w mgr env [num] forced = Inr ([not_found w num], env, [])) \<and>
   (get_demarche_config mgr num = Some d \<and> \<not> py_truthy (enabled d) \<longrightarrow>
      sync_specific_demarches w mgr env (before @ num # after) False =
        (case sync_specific_demarches w mgr env before False of
           Inl e \<Rightarrow> Inl e
         | Inr (results1, env1, calls1) \<Rightarrow>
             (case sync_specific_demarches w mgr env1 after False of
                Inl e \<Rightarrow> Inl e
              | Inr (results2, env2, calls2) \<Rightarrow>
                  Inr (results1 @ results2, env2, calls1 @ calls2))) \<and>
      sync_specific_demarches w mgr env [num] False = Inr ([], env, [])) \<and>
   success (not_found w num) = False \<and>
   demarche_number (not_found w num) = num \<and>
   errors (not_found w num) = [not_found_text] \<and>
   is_substring ''non trouv'' not_found_text"
proof (intro conjI impI)
  assume n: "get_demarche_config mgr num = None"
  then have step: "\<And>env rest. sync_specific_demarches w mgr env (num # rest) forced =
      (case sync_specific_demarches w mgr env rest forced of
         Inl e \<Rightarrow> Inl e
       | Inr (results, env'', calls) \<Rightarrow> Inr (not_found w num # results, env'', calls))"
    by simp
  show "sync_specific_demarches w mgr env (before @ num # after) forced =
        (case sync_specific_demarches w mgr env before forced of
           Inl e \<Rightarrow> Inl e
         | Inr (results1, env1, calls1) \<Rightarrow>
             (case sync_specific_demarches w mgr env1 after forced of
                Inl e \<Rightarrow> Inl e
              | Inr (results2, env2, calls2) \<Rightarrow>
                  Inr (results1 @ not_found w num # results2, env2, calls1 @ calls2)))"
    by (simp add: sync_specific_append step del: sync_specific_demarches.simps
             split: sum.split prod.split)
  show "sync_specific_demarches w mgr env [num] forced = Inr ([not_found w num], env, [])"
    using n by simp
next
  assume "get_demarche_config mgr num = Some d \<and> \<not> py_truthy (enabled d)"
  then have step: "\<And>env rest. sync_specific_demarches w mgr env (num # rest) False =
      sync_specific_demarches w mgr env rest False"
    by simp
  show "sync_specific_demarches w mgr env (before @ num # after) False =
        (case sync_specific_demarches w mgr env before False of
           Inl e \<Rightarrow> Inl e
         | Inr (results1, env1, calls1) \<Rightarrow>
             (case sync_specific_demarches w mgr env1 after False of
                Inl e \<Rightarrow> Inl e
              | Inr (results2, env2, calls2) \<Rightarrow>
                  Inr (results1 @ results2, env2, calls1 @ calls2)))"
    by (simp add: sync_specific_append step del: sync_specific_demarches.simps
             split: sum.split prod.split)
  show "sync_specific_demarches w mgr env [num] False = Inr ([], env, [])"
    using step [of env "[]"] by simp
next
  show "is_substring ''non trouv'' not_found_text" by (simp add: not_found_text_def)
qed (simp_all add: not_found_def)

theorem sync_specific_skips_unknown_and_disabled_witness:
  "get_demarche_config sample_manager (JInt 999) = None \<and>
   sync_specific_demarches calm_world sample_manager [''X'' \<mapsto> ''1''] [JInt 999] False =
     Inr ([\<lparr>demarche_number = JInt 999,
            demarche_name = JStr (''D'' @ [CHR 0xE9] @ ''marche 999''),
            success = False, dossiers_processed = 0, errors = [not_found_text],
            duration_seconds = 0\<rparr>], [''X'' \<mapsto> ''1''], []) \<and>
   get_demarche_config sample_manager (JInt 3) = Some job_off \<and>
   \<not> py_truthy (enabled job_off) \<and>
   sync_specific_demarches calm_world sample_manager [''X'' \<mapsto> ''1''] [JInt 3, JInt 999, JInt 3] False =
     Inr ([not_found calm_world (JInt 999)], [''X'' \<mapsto> ''1''], [])"
proof -
  have a: "get_demarche_config sample_manager (JInt 999) = None"
    by (simp add: get_demarche_config_def sample_manager_def job_a_def job_b_def job_off_def
                  job_empty_def)
  have b: "get_demarche_config sample_manager (JInt 3) = Some job_off"
    by (simp add: get_demarche_config_def sample_manager_def job_a_def job_b_def job_off_def
                  job_empty_def)
  have c: "\<not> py_truthy (enabled job_off)" by (simp add: job_off_def)
  have d: "not_found calm_world (JInt 999) =
      \<lparr>demarche_number = JInt 999,
       demarche_name = JStr (''D'' @ [CHR 0xE9] @ ''marche 999''),
       success = False, dossiers_processed = 0, errors = [not_found_text],
       duration_seconds = 0\<rparr>"
    by (simp add: not_found_def py_str_def show_int_def digit_char_def calm_world_def)
  have e: "sync_specific_demarches calm_world sample_manager [''X'' \<mapsto> ''1''] [JInt 3] False =
      Inr ([], [''X'' \<mapsto> ''1''], [])"
    using sync_specific_skips_unknown_and_disabled
            [of sample_manager "JInt 3" calm_world "[''X'' \<mapsto> ''1'']" "[]" "[]" False job_off]
          b c by simp
  have f: "sync_specific_demarches calm_world sample_manager [''X'' \<mapsto> ''1''] [JInt 999] False =
      Inr ([not_found calm_world (JInt 999)], [''X'' \<mapsto> ''1''], [])"
    using sync_specific_skips_unknown_and_disabled
            [of sample_manager "JInt 999" calm_world "[''X'' \<mapsto> ''1'']" "[]" "[]" False job_off]
          a by simp
  have g: "sync_specific_demarches calm_world sample_manager [''X'' \<mapsto> ''1'']
             ([JInt 3] @ JInt 999 # [JInt 3]) False =
      Inr ([not_found calm_world (JInt 999)], [''X'' \<mapsto> ''1''], [])"
    using sync_specific_skips_unknown_and_disabled
            [of sample_manager "JInt 999" calm_world "[''X'' \<mapsto> ''1'']" "[JInt 3]" "[JInt 3]"
                False job_off]
          a e
    by (simp del: sync_specific_demarches.simps)
  show ?thesis using a b c d f g by simp
qed

subsection \<open>Validation\<close>

lemma check_grist_result:
  "check_grist g keys = Inr incomplete \<Longrightarrow>
   incomplete = filter (\<lambda>k. \<not> grist_field_valid g k) keys"
proof (induction keys arbitrary: incomplete)
  case Nil
  then show ?case by simp
next
  case (Cons key rest)
  then show ?case
    by (cases "dict_get g key JNull")
       (auto simp: grist_field_valid_def Let_def split: sum.splits if_splits)
qed

lemma check_grist_returns:
  "list_all (grist_field_checkable g) keys \<Longrightarrow> \<exists>incomplete. check_grist g keys = Inr incomplete"
proof (induction keys)
  case Nil
  then show ?case by simp
next
  case (Cons key rest)
  then show ?case
    by (cases "dict_get g key JNull")
       (auto simp: grist_field_checkable_def Let_def split: sum.splits if_splits)
qed

lemma load_demarche_resolved:
  "load_demarche x = Inr (printed, Some d) \<Longrightarrow> \<not> startswith (api_token d) ''${''"
  by (auto simp: load_demarche_def split: json.splits if_splits sum.splits)

lemma load_demarches_loop_resolved:
  "load_demarches_loop entries = Inr (printed, ds) \<Longrightarrow>
   list_all (\<lambda>d. \<not> startswith (api_token d) ''${'') ds"
proof (induction entries arbitrary: printed ds)
  case Nil
  then show ?case by simp
next
  case (Cons x entries)
  then show ?case
    by (auto split: sum.splits prod.splits option.splits dest: load_demarche_resolved)
qed

lemma manager_init_resolved:
  "manager_init w path content env = Inr (printed, mgr, env') \<Longrightarrow>
   list_all (\<lambda>d. \<not> startswith (api_token d) ''${'') (demarches mgr)"
  by (auto simp: manager_init_def load_demarches_def Let_def
           split: sum.splits prod.splits dest: load_demarches_loop_resolved)

text \<open>
  Claim C5, as the code has it. \<^verbatim>\<open>validate_configuration\<close> takes the manager and
  returns the lines it prints and a boolean; it has no environment to write. When it
  returns, the boolean says that the three Grist fields are valid and that no job of the
  registry has an empty token or a token that starts with \<^verbatim>\<open>${\<close>; each Grist
  field that is not valid and each such job is reported by a line of its own. It returns,
  and does not raise, when the Grist section is an object whose three fields are strings
  or values that count as false. The registry is the one \<^verbatim>\<open>_load_demarches\<close>
  built: an entry of the document whose token starts with \<^verbatim>\<open>${\<close> is not in it,
  so after \<^verbatim>\<open>__init__\<close> the jobs reported are exactly those with an empty token.
\<close>

theorem validate_configuration_reports:
  "(validate_configuration mgr = Inr (printed, valid) \<longrightarrow>
      (\<exists>warnings g. get_grist_config mgr = Inr (warnings, g) \<and>
         valid = (list_all (grist_field_valid g) [''base_url'', ''api_key'', ''doc_id''] \<and>
                  list_all (\<lambda>d. \<not> token_invalid d) (demarches mgr)) \<and>
         (\<forall>key \<in> set [''base_url'', ''api_key'', ''doc_id''].
            \<not> grist_field_valid g key \<longrightarrow> GristIncomplete key \<in> set printed)) \<and>
      (\<forall>d \<in> set (demarches mgr).
         token_invalid d \<longrightarrow> \<not> valid \<and> TokenManquant (number d) (name d) \<in> set printed)) \<and>
   (get_grist_config mgr = Inr (warnings, g) \<and>
    list_all (grist_field_checkable g) [''base_url'', ''api_key'', ''doc_id''] \<longrightarrow>
      (\<exists>printed valid. validate_configuration mgr = Inr (printed, valid))) \<and>
   (manager_init w path content env = Inr (printed0, mgr, env') \<longrightarrow>
      (\<forall>d \<in> set (demarches mgr). token_invalid d = (api_token d = [])))"
proof (intro conjI impI)
  assume v: "validate_configuration mgr = Inr (printed, valid)"
  then obtain warnings g incomplete where
    g: "get_grist_config mgr = Inr (warnings, g)" and
    c: "check_grist g [''base_url'', ''api_key'', ''doc_id''] = Inr incomplete"
    by (auto simp: validate_configuration_def split: sum.splits prod.splits)
  have inc: "incomplete = filter (\<lambda>k. \<not> grist_field_valid g k) [''base_url'', ''api_key'', ''doc_id'']"
    using c by (rule check_grist_result)
  have valid: "valid = (incomplete = [] \<and> list_all (\<lambda>d. \<not> token_invalid d) (demarches mgr))"
    using v g c by (simp add: validate_configuration_def Let_def del: check_grist.simps)
  have printed: "set (map GristIncomplete incomplete) \<subseteq> set printed"
    "set (map token_line (demarches mgr)) \<subseteq> set printed"
    using v g c by (auto simp: validate_configuration_def Let_def simp del: check_grist.simps)
  have v1: "valid = (list_all (grist_field_valid g) [''base_url'', ''api_key'', ''doc_id''] \<and>
                  list_all (\<lambda>d. \<not> token_invalid d) (demarches mgr))"
    unfolding valid inc by auto
  have v2: "\<forall>key \<in> set [''base_url'', ''api_key'', ''doc_id''].
            \<not> grist_field_valid g key \<longrightarrow> GristIncomplete key \<in> set printed"
    using printed(1) unfolding inc by auto
  show "\<exists>warnings g. get_grist_config mgr = Inr (warnings, g) \<and>
         valid = (list_all (grist_field_valid g) [''base_url'', ''api_key'', ''doc_id''] \<and>
                  list_all (\<lambda>d. \<not> token_invalid d) (demarches mgr)) \<and>
         (\<forall>key \<in> set [''base_url'', ''api_key'', ''doc_id''].
            \<not> grist_field_valid g key \<longrightarrow> GristIncomplete key \<in> set printed)"
    using g v1 v2 by blast
  show "\<forall>d \<in> set (demarches mgr).
         token_invalid d \<longrightarrow> \<not> valid \<and> TokenManquant (number d) (name d) \<in> set printed"
  proof (intro ballI impI)
    fix d assume d: "d \<in> set (demarches mgr)" and t: "token_invalid d"
    have "token_line d \<in> set printed" using printed(2) d by auto
    moreover have "\<not> valid" using valid d t by (auto simp: list_all_iff)
    ultimately show "\<not> valid \<and> TokenManquant (number d) (name d) \<in> set printed"
      using t by (simp add: token_line_def)
  qed
next
  assume "get_grist_config mgr = Inr (warnings, g) \<and>
    list_all (grist_field_checkable g) [''base_url'', ''api_key'', ''doc_id'']"
  then have g: "get_grist_config mgr = Inr (warnings, g)"
    and "list_all (grist_field_checkable g) [''base_url'', ''api_key'', ''doc_id'']" by auto
  then obtain incomplete where "check_grist g [''base_url'', ''api_key'', ''doc_id''] = Inr incomplete"
    using check_grist_returns by blast
  with g show "\<exists>printed valid. validate_configuration mgr = Inr (printed, valid)"
    by (simp add: validate_configuration_def Let_def del: check_grist.simps)
next
  assume "manager_init w path content env = Inr (printed0, mgr, env')"
  then have "list_all (\<lambda>d. \<not> startswith (api_token d) ''${'') (demarches mgr)"
    by (rule manager_init_resolved)
  then show "\<forall>d \<in> set (demarches mgr). token_invalid d = (api_token d = [])"
    by (auto simp: token_invalid_def list_all_iff)
qed

lemmas validate_eval =
  validate_configuration_def get_grist_config_def subscript_def dict_item_def dict_get_def
  get_enabled_demarches_def token_line_def token_invalid_def

theorem validate_configuration_reports_witness:
  "validate_configuration sample_manager =
     Inr ([ValidationStart, GristValide, DemarchesActivees 3 4,
           TokenConfigure True (JStr ''A'') (JInt 1), TokenConfigure True (JStr ''B'') (JInt 2),
           TokenConfigure False (JStr ''Off'') (JInt 3), TokenManquant (JInt 4) (JStr ''E''),
           ConfigurationInvalide], False) \<and>
   token_invalid job_empty \<and> job_empty \<in> set (demarches sample_manager)"
proof -
  have g: "get_grist_config sample_manager =
      Inr ([], [(''base_url'', JStr ''https://grist''), (''api_key'', JStr ''key''),
                (''doc_id'', JStr ''doc'')])"
    by (simp add: get_grist_config_def subscript_def dict_item_def sample_manager_def
                  sample_grist_def)
  have c: "list_all (grist_field_checkable [(''base_url'', JStr ''https://grist''),
             (''api_key'', JStr ''key''), (''doc_id'', JStr ''doc'')])
             [''base_url'', ''api_key'', ''doc_id'']"
    by (simp add: grist_field_checkable_def dict_get_def)
  have t: "token_invalid job_empty" by (simp add: token_invalid_def job_empty_def)
  have m: "job_empty \<in> set (demarches sample_manager)" by (simp add: sample_manager_def)
  have "\<exists>printed valid. validate_configuration sample_manager = Inr (printed, valid)"
    using validate_configuration_reports
            [where mgr = sample_manager and warnings = "[]"
               and g = "[(''base_url'', JStr ''https://grist''), (''api_key'', JStr ''key''),
                         (''doc_id'', JStr ''doc'')]"
               and printed = "[]" and valid = True and w = calm_world
               and path = "''config.json''" and content = Missing and env = Map.empty
               and printed0 = "[]" and env' = Map.empty]
          g c
    by blast
  then obtain printed valid where v: "validate_configuration sample_manager = Inr (printed, valid)"
    by blast
  have n: "\<not> valid \<and> TokenManquant (number job_empty) (name job_empty) \<in> set printed"
    using validate_configuration_reports
            [where mgr = sample_manager and warnings = "[]"
               and g = "[(''base_url'', JStr ''https://grist''), (''api_key'', JStr ''key''),
                         (''doc_id'', JStr ''doc'')]"
               and printed = printed and valid = valid and w = calm_world
               and path = "''config.json''" and content = Missing and env = Map.empty
               and printed0 = "[]" and env' = Map.empty]
          v t m
    by blast
  have e: "validate_configuration sample_manager =
     Inr ([ValidationStart, GristValide, DemarchesActivees 3 4,
           TokenConfigure True (JStr ''A'') (JInt 1), TokenConfigure True (JStr ''B'') (JInt 2),
           TokenConfigure False (JStr ''Off'') (JInt 3), TokenManquant (JInt 4) (JStr ''E''),
           ConfigurationInvalide], False)"
    by (simp add: validate_eval sample_manager_def sample_grist_def job_a_def job_b_def
                  job_off_def job_empty_def)
  from e t m n show ?thesis by simp
qed

text \<open>
  The claim as the specification states it fails: the document has a job whose token is
  still a placeholder, \<^verbatim>\<open>__init__\<close> warns and leaves the job out of the registry,
  and \<^verbatim>\<open>validate_configuration\<close> returns \<^verbatim>\<open>True\<close> without a line for that job.
\<close>

theorem validate_after_load_counterexample:
  "manager_init calm_world ''config.json'' (Parsed unresolved_doc) Map.empty =
     Inr ([TokenNonResolu (JInt 9) ''${TOKEN_9}''], unresolved_manager, Map.empty) \<and>
   validate_configuration unresolved_manager =
     Inr ([ValidationStart, GristValide, DemarchesActivees 0 0, ConfigurationValide], True)"
  by (simp add: manager_init_def load_config_def load_dotenv_def py_contains_def
                load_demarches_def load_demarche_def py_iter_def match_var_def getenv_def
                validate_eval unresolved_manager_def unresolved_doc_def sample_grist_def
                calm_world_def)

end
